theory Spec2Isabelle
  imports Main "HOL-Library.Sublist"
begin

section \<open>Python strings\<close>

text \<open>
  A Python \<open>str\<close> is a sequence of Unicode code points. The tools of
  \<open>alertharvest_server.py\<close> receive every argument as a \<open>str\<close> and return a
  \<open>str\<close>, so a string is modelled as the list of its code points. \<open>ascii\<close> turns
  an ASCII literal of the source into that list; the symbols the source puts in front
  of its messages are given by their code points.
\<close>

type_synonym pystr = "nat list"

definition ascii :: "string \<Rightarrow> pystr" where
  "ascii s = map of_char s"

text \<open>
  \<open>str.isspace\<close> for one code point: the characters \<open>str.strip()\<close> removes when it
  is called without an argument (CPython's \<open>_PyUnicode_IsWhitespace\<close>).
\<close>

definition whitespace :: "nat list" where
  "whitespace = [9, 10, 11, 12, 13, 28, 29, 30, 31, 32, 133, 160, 5760,
     8192, 8193, 8194, 8195, 8196, 8197, 8198, 8199, 8200, 8201, 8202,
     8232, 8233, 8239, 8287, 12288]"

definition isspace :: "nat \<Rightarrow> bool" where
  "isspace c = (c \<in> set whitespace)"

definition lstrip :: "pystr \<Rightarrow> pystr" where
  "lstrip s = dropWhile isspace s"

definition rstrip :: "pystr \<Rightarrow> pystr" where
  "rstrip s = rev (dropWhile isspace (rev s))"

definition strip :: "pystr \<Rightarrow> pystr" where
  "strip s = rstrip (lstrip s)"

text \<open>\<open>s.split(sep)\<close> for a separator of one character: never an empty list.\<close>

fun split :: "nat \<Rightarrow> pystr \<Rightarrow> pystr list" where
  "split sep [] = [[]]"
| "split sep (c # cs) =
     (if c = sep then [] # split sep cs
      else (case split sep cs of [] \<Rightarrow> [[c]] | t # ts \<Rightarrow> (c # t) # ts))"

text \<open>\<open>sep.join(parts)\<close>.\<close>

fun join :: "pystr \<Rightarrow> pystr list \<Rightarrow> pystr" where
  "join sep [] = []"
| "join sep [p] = p"
| "join sep (p # q # ps) = p @ sep @ join sep (q # ps)"

section \<open>Integers and text\<close>

text \<open>
  \<open>int(s)\<close> for a \<open>str\<close> in base 10. CPython skips white space at both ends
  (the six ASCII characters of C's \<open>isspace\<close>, and the non-ASCII characters of
  \<open>str.isspace\<close>), reads an optional sign, then decimal digits with single
  underscores allowed between two digits. A digit is any Unicode character with a
  decimal value; these come in runs of ten, listed here by the code point of their
  zero (Unicode 14, as in CPython 3.11). A literal with more digits than the
  interpreter's \<open>int_max_str_digits\<close> (when that is not 0) raises \<open>ValueError\<close>
  like a malformed one. \<open>None\<close> stands for the \<open>ValueError\<close>.
\<close>

definition decimal_zeros :: "nat list" where
  "decimal_zeros = [48, 1632, 1776, 1984, 2406, 2534, 2662, 2790, 2918, 3046, 3174,
     3302, 3430, 3558, 3664, 3792, 3872, 4160, 4240, 6112, 6160, 6470, 6608, 6784,
     6800, 6992, 7088, 7232, 7248, 42528, 43216, 43264, 43472, 43504, 43600, 44016,
     65296, 66720, 68912, 69734, 69872, 69942, 70096, 70384, 70736, 70864, 71248,
     71360, 71472, 71904, 72016, 72784, 73040, 73120, 92768, 92864, 93008, 120782,
     120792, 120802, 120812, 120822, 123200, 123632, 125264, 130032]"

definition decimal :: "nat \<Rightarrow> nat option" where
  "decimal c =
     (case find (\<lambda>z. z \<le> c \<and> c < z + 10) decimal_zeros of
        None \<Rightarrow> None
      | Some z \<Rightarrow> Some (c - z))"

definition int_isspace :: "nat \<Rightarrow> bool" where
  "int_isspace c = (c \<in> set [9, 10, 11, 12, 13, 32] \<or> (128 \<le> c \<and> isspace c))"

fun scan_digits :: "pystr \<Rightarrow> nat list option" where
  "scan_digits [] = None"
| "scan_digits [c] = map_option (\<lambda>d. [d]) (decimal c)"
| "scan_digits (c # u # rest) =
     (case decimal c of
        None \<Rightarrow> None
      | Some d \<Rightarrow> map_option (Cons d) (scan_digits (if u = 95 then rest else u # rest)))"

definition digits_value :: "nat list \<Rightarrow> nat" where
  "digits_value ds = foldl (\<lambda>a d. 10 * a + d) 0 ds"

definition py_int :: "nat \<Rightarrow> pystr \<Rightarrow> int option" where
  "py_int max_str_digits s =
     (let t = rev (dropWhile int_isspace (rev (dropWhile int_isspace s)));
          neg = (t \<noteq> [] \<and> hd t = 45);
          body = (if t \<noteq> [] \<and> (hd t = 43 \<or> hd t = 45) then tl t else t)
      in case scan_digits body of
           None \<Rightarrow> None
         | Some ds \<Rightarrow>
             if max_str_digits \<noteq> 0 \<and> max_str_digits < length ds then None
             else Some (if neg then - int (digits_value ds) else int (digits_value ds)))"

text \<open>\<open>str(n)\<close> for an \<open>int\<close>, and \<open>str(xs)\<close> for a list of \<open>int\<close>.\<close>

function str_nat :: "nat \<Rightarrow> pystr" where
  "str_nat n = (if n < 10 then [48 + n] else str_nat (n div 10) @ [48 + n mod 10])"
  by pat_completeness auto
termination
  by (relation "measure id") auto

declare str_nat.simps [simp del]

definition str_int :: "int \<Rightarrow> pystr" where
  "str_int i = (if i < 0 then 45 # str_nat (nat (- i)) else str_nat (nat i))"

definition str_int_list :: "int list \<Rightarrow> pystr" where
  "str_int_list xs = [91] @ join (ascii '', '') (map str_int xs) @ [93]"

section \<open>The clock\<close>

text \<open>
  \<open>format_timestamp\<close> reads the clock, \<open>datetime.now(timezone.utc)\<close>, and
  renders it with \<open>isoformat()\<close>. The reading is an argument of the model. For a
  time in UTC \<open>isoformat\<close> gives \<open>YYYY-MM-DDTHH:MM:SS+00:00\<close>, with
  \<open>.ffffff\<close> after the seconds when the microseconds are not 0.
\<close>

record datetime =
  year :: nat
  month :: nat
  day :: nat
  hour :: nat
  minute :: nat
  second :: nat
  microsecond :: nat

definition zfill :: "nat \<Rightarrow> pystr \<Rightarrow> pystr" where
  "zfill w s = replicate (w - length s) 48 @ s"

definition isoformat :: "datetime \<Rightarrow> pystr" where
  "isoformat d =
     zfill 4 (str_nat (year d)) @ ascii ''-'' @ zfill 2 (str_nat (month d)) @ ascii ''-'' @
     zfill 2 (str_nat (day d)) @ ascii ''T'' @ zfill 2 (str_nat (hour d)) @ ascii '':'' @
     zfill 2 (str_nat (minute d)) @ ascii '':'' @ zfill 2 (str_nat (second d)) @
     (if microsecond d \<noteq> 0 then ascii ''.'' @ zfill 6 (str_nat (microsecond d)) else []) @
     ascii ''+00:00''"

definition format_timestamp :: "datetime \<Rightarrow> pystr" where
  "format_timestamp now = isoformat now"

definition validate_severity :: "pystr \<Rightarrow> bool" where
  "validate_severity severity =
     (let valid_levels = [ascii ''CRITICAL'', ascii ''MAJOR'', ascii ''WARNING'']
      in severity \<in> set valid_levels)"

section \<open>The backend seen from the tools\<close>

text \<open>
  Every tool sends at most one request with \<open>httpx\<close>. A request is what the
  source passes to \<open>client.post\<close> or \<open>client.put\<close>: the URL, the \<open>json=\<close> body
  when there is one (a dict, kept as the list of its items) and the timeout.
\<close>

datatype http_method = POST | PUT

datatype jvalue = JString pystr | JIntList "int list"

record request =
  verb :: http_method
  url :: pystr
  json :: "(pystr \<times> jvalue) list option"
  timeout :: nat

text \<open>
  What comes back. Either the call raises (connection refused, timeout, any other
  failure of the transport; the text is \<open>str(e)\<close>), or there is a response with a
  status code and a body. \<open>response.json()\<close> raises on a body that is not JSON
  (\<open>Undecodable\<close>, with \<open>str(e)\<close>), gives a value that is not a dict
  (\<open>NotDict\<close>, with the name of its Python type) or gives a dict. A value stored in
  the dict is a \<open>str\<close> or anything else JSON allows; the tools only compare it with
  a \<open>str\<close> and format it, so anything else is kept as the text \<open>str()\<close> gives
  for it.
\<close>

datatype pyval = Str pystr | Other pystr

datatype body = Undecodable pystr | NotDict pystr | Dict "pystr \<Rightarrow> pyval option"

datatype outcome = RequestFailed pystr | Response nat body

type_synonym backend = "request \<Rightarrow> outcome"

text \<open>
  The exceptions raised inside the \<open>try\<close> blocks: \<open>httpx.HTTPStatusError\<close> (with
  the status code of its response) and every other subclass of \<open>Exception\<close> (with
  \<open>str(e)\<close>). Cancelling the task that awaits the response is not an outcome of the
  backend and is outside the model.
\<close>

datatype exn = HTTPStatusError nat | Exception pystr

text \<open>
  \<open>httpx\<close>: \<open>raise_for_status()\<close> raises \<open>HTTPStatusError\<close> unless the status
  code is a success code, 200 to 299.
\<close>

definition is_success :: "nat \<Rightarrow> bool" where
  "is_success code = (200 \<le> code \<and> code \<le> 299)"

text \<open>
  The first lines of every \<open>try\<close> block: send the request, \<open>raise_for_status()\<close>,
  \<open>result = response.json()\<close>. The first use of \<open>result\<close> is always
  \<open>result.get("status")\<close>, which raises \<open>AttributeError\<close> on a value that is not
  a dict; that is part of \<open>fetch\<close>, so that what it returns is a dict.
\<close>

definition fetch :: "backend \<Rightarrow> request \<Rightarrow> exn + (pystr \<Rightarrow> pyval option)" where
  "fetch send req =
     (case send req of
        RequestFailed e \<Rightarrow> Inl (Exception e)
      | Response code b \<Rightarrow>
          if \<not> is_success code then Inl (HTTPStatusError code)
          else (case b of
                  Undecodable e \<Rightarrow> Inl (Exception e)
                | NotDict t \<Rightarrow>
                    Inl (Exception ([39] @ t @ [39] @ ascii '' object has no attribute '' @
                                    [39] @ ascii ''get'' @ [39]))
                | Dict d \<Rightarrow> Inr d))"

text \<open>\<open>result.get(key, default)\<close>, and the text an f-string puts for a value.\<close>

definition dict_get :: "(pystr \<Rightarrow> pyval option) \<Rightarrow> pystr \<Rightarrow> pyval \<Rightarrow> pyval" where
  "dict_get d k dflt = (case d k of None \<Rightarrow> dflt | Some v \<Rightarrow> v)"

fun fmt :: "pyval \<Rightarrow> pystr" where
  "fmt (Str s) = s"
| "fmt (Other t) = t"

definition status_is_success :: "(pystr \<Rightarrow> pyval option) \<Rightarrow> bool" where
  "status_is_success result = (result (ascii ''status'') = Some (Str (ascii ''success'')))"

text \<open>The two marks that open every result: U+274C on a failure, U+2705 on a success.\<close>

definition cross_mark :: pystr where
  "cross_mark = [10060]"

definition check_mark :: pystr where
  "check_mark = [9989]"

definition unknown_error :: "(pystr \<Rightarrow> pyval option) \<Rightarrow> pystr" where
  "unknown_error result =
     cross_mark @ ascii '' Error: '' @
     fmt (dict_get result (ascii ''message'') (Str (ascii ''Unknown error'')))"

text \<open>
  The process: the base URL read from the environment at start-up, and the
  interpreter's limit on the digits of a decimal literal (0 for none).
\<close>

record runtime =
  alertharvest_url :: pystr
  int_max_str_digits :: nat

section \<open>The tools\<close>

text \<open>
  A tool returns the requests it has sent, in order, and its result: \<open>Inr\<close> the
  string it returns, \<open>Inl\<close> an exception that leaves it. The \<open>logger\<close> calls write
  to the standard error stream and change nothing else; they are left out.
\<close>

definition create_alert ::
  "runtime \<Rightarrow> backend \<Rightarrow> datetime \<Rightarrow> pystr \<Rightarrow> pystr \<Rightarrow> pystr \<Rightarrow> pystr \<Rightarrow> pystr \<Rightarrow>
   request list \<times> (exn + pystr)" where
  "create_alert rt send now location severity message source timestamp =
     (if strip location = [] then
        ([], Inr (cross_mark @ ascii '' Error: Location is required''))
      else if strip severity = [] then
        ([], Inr (cross_mark @ ascii '' Error: Severity is required''))
      else if strip message = [] then
        ([], Inr (cross_mark @ ascii '' Error: Message is required''))
      else if strip source = [] then
        ([], Inr (cross_mark @ ascii '' Error: Source is required''))
      else if \<not> validate_severity severity then
        ([], Inr (cross_mark @
                  ascii '' Error: Invalid severity. Must be one of: critical, major, warning''))
      else
        (let alert_timestamp =
               (if strip timestamp \<noteq> [] then strip timestamp else format_timestamp now);
             alert_data =
               [(ascii ''location'', JString (strip location)),
                (ascii ''severity'', JString (strip severity)),
                (ascii ''message'', JString (strip message)),
                (ascii ''source'', JString (strip source)),
                (ascii ''timestamp'', JString alert_timestamp)];
             req = \<lparr>verb = POST,
                     url = alertharvest_url rt @ ascii ''/api/create_alert/'',
                     json = Some alert_data, timeout = 10\<rparr>
         in ([req],
             case fetch send req of
               Inr result \<Rightarrow>
                 if status_is_success result then
                   Inr (check_mark @ ascii '' Alert Created Successfully'' @ [10] @
                        [128205] @ ascii '' Location: '' @ location @ [10] @
                        [9888, 65039] @ ascii '' Severity: '' @ severity @ [10] @
                        [128172] @ ascii '' Message: '' @ message @ [10] @
                        [128279] @ ascii '' Source: '' @ source @ [10] @
                        [9201, 65039] @ ascii '' Timestamp: '' @ alert_timestamp)
                 else Inr (unknown_error result)
             | Inl (HTTPStatusError code) \<Rightarrow>
                 Inr (cross_mark @ ascii '' API Error: HTTP '' @ str_nat code)
             | Inl (Exception e) \<Rightarrow>
                 Inr (cross_mark @ ascii '' Error: '' @ e))))"

definition acknowledge_alert :: "runtime \<Rightarrow> backend \<Rightarrow> pystr \<Rightarrow> request list \<times> (exn + pystr)" where
  "acknowledge_alert rt send alert_id =
     (if strip alert_id = [] then
        ([], Inr (cross_mark @ ascii '' Error: Alert ID is required''))
      else
        (case py_int (int_max_str_digits rt) (strip alert_id) of
           None \<Rightarrow>
             ([], Inr (cross_mark @ ascii '' Error: Alert ID must be a number, got: '' @
                       alert_id))
         | Some alert_id_int \<Rightarrow>
             (let req = \<lparr>verb = PUT,
                         url = alertharvest_url rt @ ascii ''/api/acknowledge_alert/'' @
                               str_int alert_id_int,
                         json = None, timeout = 10\<rparr>
              in ([req],
                  case fetch send req of
                    Inr result \<Rightarrow>
                      if status_is_success result then
                        Inr (check_mark @ ascii '' Alert #'' @ str_int alert_id_int @
                             ascii '' acknowledged successfully'')
                      else Inr (unknown_error result)
                  | Inl (HTTPStatusError code) \<Rightarrow>
                      Inr (cross_mark @ ascii '' API Error: HTTP '' @ str_nat code @
                           ascii '' - Alert may not exist'')
                  | Inl (Exception e) \<Rightarrow>
                      Inr (cross_mark @ ascii '' Error: '' @ e)))))"

text \<open>
  The list comprehension of the two bulk tools,
  \<open>[int(id.strip()) for id in alert_ids.split(",") if id.strip()]\<close>: \<open>None\<close> when
  one of the \<open>int\<close> calls raises \<open>ValueError\<close>.
\<close>

definition parse_id_list :: "nat \<Rightarrow> pystr \<Rightarrow> int list option" where
  "parse_id_list max_str_digits alert_ids =
     those (map (\<lambda>id. py_int max_str_digits (strip id))
                (filter (\<lambda>id. strip id \<noteq> []) (split 44 alert_ids)))"

definition acknowledge_alerts_bulk :: "runtime \<Rightarrow> backend \<Rightarrow> pystr \<Rightarrow> request list \<times> (exn + pystr)" where
  "acknowledge_alerts_bulk rt send alert_ids =
     (if strip alert_ids = [] then
        ([], Inr (cross_mark @ ascii '' Error: Alert IDs are required (comma-separated)''))
      else
        (case parse_id_list (int_max_str_digits rt) alert_ids of
           None \<Rightarrow>
             ([], Inr (cross_mark @ ascii '' Error: All alert IDs must be numbers''))
         | Some id_list \<Rightarrow>
             if id_list = [] then
               ([], Inr (cross_mark @ ascii '' Error: No valid alert IDs provided''))
             else
               (let req = \<lparr>verb = PUT,
                           url = alertharvest_url rt @ ascii ''/api/acknowledge_alerts_bulk/'',
                           json = Some [(ascii ''alert_ids'', JIntList id_list)],
                           timeout = 10\<rparr>
                in ([req],
                    case fetch send req of
                      Inr result \<Rightarrow>
                        if status_is_success result then
                          Inr (check_mark @ ascii '' '' @ str_nat (length id_list) @
                               ascii '' alerts acknowledged successfully: '' @
                               str_int_list id_list)
                        else Inr (unknown_error result)
                    | Inl (HTTPStatusError code) \<Rightarrow>
                        Inr (cross_mark @ ascii '' API Error: HTTP '' @ str_nat code)
                    | Inl (Exception e) \<Rightarrow>
                        Inr (cross_mark @ ascii '' Error: '' @ e)))))"

definition unacknowledge_alert :: "runtime \<Rightarrow> backend \<Rightarrow> pystr \<Rightarrow> request list \<times> (exn + pystr)" where
  "unacknowledge_alert rt send alert_id =
     (if strip alert_id = [] then
        ([], Inr (cross_mark @ ascii '' Error: Alert ID is required''))
      else
        (case py_int (int_max_str_digits rt) (strip alert_id) of
           None \<Rightarrow>
             ([], Inr (cross_mark @ ascii '' Error: Alert ID must be a number, got: '' @
                       alert_id))
         | Some alert_id_int \<Rightarrow>
             (let req = \<lparr>verb = PUT,
                         url = alertharvest_url rt @ ascii ''/api/unacknowledge_alert/'' @
                               str_int alert_id_int,
                         json = None, timeout = 10\<rparr>
              in ([req],
                  case fetch send req of
                    Inr result \<Rightarrow>
                      if status_is_success result then
                        Inr (check_mark @ ascii '' Alert #'' @ str_int alert_id_int @
                             ascii '' unacknowledged successfully'')
                      else Inr (unknown_error result)
                  | Inl (HTTPStatusError code) \<Rightarrow>
                      Inr (cross_mark @ ascii '' API Error: HTTP '' @ str_nat code @
                           ascii '' - Alert may not exist'')
                  | Inl (Exception e) \<Rightarrow>
                      Inr (cross_mark @ ascii '' Error: '' @ e)))))"

definition close_alert :: "runtime \<Rightarrow> backend \<Rightarrow> pystr \<Rightarrow> request list \<times> (exn + pystr)" where
  "close_alert rt send alert_id =
     (if strip alert_id = [] then
        ([], Inr (cross_mark @ ascii '' Error: Alert ID is required''))
      else
        (case py_int (int_max_str_digits rt) (strip alert_id) of
           None \<Rightarrow>
             ([], Inr (cross_mark @ ascii '' Error: Alert ID must be a number, got: '' @
                       alert_id))
         | Some alert_id_int \<Rightarrow>
             (let req = \<lparr>verb = PUT,
                         url = alertharvest_url rt @ ascii ''/api/close_alert/'' @
                               str_int alert_id_int,
                         json = None, timeout = 10\<rparr>
              in ([req],
                  case fetch send req of
                    Inr result \<Rightarrow>
                      if status_is_success result then
                        Inr (check_mark @ ascii '' Alert #'' @ str_int alert_id_int @
                             ascii '' closed successfully'')
                      else Inr (unknown_error result)
                  | Inl (HTTPStatusError code) \<Rightarrow>
                      Inr (cross_mark @ ascii '' API Error: HTTP '' @ str_nat code @
                           ascii '' - Alert may not exist'')
                  | Inl (Exception e) \<Rightarrow>
                      Inr (cross_mark @ ascii '' Error: '' @ e)))))"

definition close_alerts_bulk :: "runtime \<Rightarrow> backend \<Rightarrow> pystr \<Rightarrow> request list \<times> (exn + pystr)" where
  "close_alerts_bulk rt send alert_ids =
     (if strip alert_ids = [] then
        ([], Inr (cross_mark @ ascii '' Error: Alert IDs are required (comma-separated)''))
      else
        (case parse_id_list (int_max_str_digits rt) alert_ids of
           None \<Rightarrow>
             ([], Inr (cross_mark @ ascii '' Error: All alert IDs must be numbers''))
         | Some id_list \<Rightarrow>
             if id_list = [] then
               ([], Inr (cross_mark @ ascii '' Error: No valid alert IDs provided''))
             else
               (let req = \<lparr>verb = PUT,
                           url = alertharvest_url rt @ ascii ''/api/close_alerts_bulk/'',
                           json = Some [(ascii ''alert_ids'', JIntList id_list)],
                           timeout = 10\<rparr>
                in ([req],
                    case fetch send req of
                      Inr result \<Rightarrow>
                        if status_is_success result then
                          Inr (check_mark @ ascii '' '' @ str_nat (length id_list) @
                               ascii '' alerts closed successfully: '' @
                               str_int_list id_list)
                        else Inr (unknown_error result)
                    | Inl (HTTPStatusError code) \<Rightarrow>
                        Inr (cross_mark @ ascii '' API Error: HTTP '' @ str_nat code)
                    | Inl (Exception e) \<Rightarrow>
                        Inr (cross_mark @ ascii '' Error: '' @ e)))))"

definition close_expired_alerts :: "runtime \<Rightarrow> backend \<Rightarrow> request list \<times> (exn + pystr)" where
  "close_expired_alerts rt send =
     (let req = \<lparr>verb = PUT,
                 url = alertharvest_url rt @ ascii ''/api/close_expired_alerts/'',
                 json = None, timeout = 10\<rparr>
      in ([req],
          case fetch send req of
            Inr result \<Rightarrow>
              if status_is_success result then
                Inr (check_mark @ ascii '' '' @
                     fmt (dict_get result (ascii ''message'')
                            (Str (ascii ''Expired alerts closed successfully''))))
              else Inr (unknown_error result)
          | Inl (HTTPStatusError code) \<Rightarrow>
              Inr (cross_mark @ ascii '' API Error: HTTP '' @ str_nat code)
          | Inl (Exception e) \<Rightarrow>
              Inr (cross_mark @ ascii '' Error: '' @ e)))"

section \<open>Words of the specification\<close>

text \<open>
  A blank argument is one that is empty or has white space only. The tokens of an
  \<open>alert_ids\<close> argument are what is left after splitting it at the commas,
  trimming every piece and dropping the empty ones.
\<close>

definition blank :: "pystr \<Rightarrow> bool" where
  "blank s = list_all isspace s"

definition tokens :: "pystr \<Rightarrow> pystr list" where
  "tokens alert_ids = filter (\<lambda>t. t \<noteq> []) (map strip (split 44 alert_ids))"

text \<open>
  A run of a tool was answered with a status code and a body when it sent exactly one
  request and that is the response of the backend to it.
\<close>

definition answered :: "backend \<Rightarrow> request list \<times> (exn + pystr) \<Rightarrow> nat \<Rightarrow> body \<Rightarrow> bool" where
  "answered send run code b =
     (case fst run of [req] \<Rightarrow> send req = Response code b | _ \<Rightarrow> False)"

text \<open>
  A reading of the clock is a \<open>datetime\<close> whose fields are in the ranges Python
  allows. A string is an ISO-8601 time with the UTC offset when it reads
  \<open>YYYY-MM-DDTHH:MM:SS+00:00\<close>, with or without six digits of a fraction after the
  seconds.
\<close>

definition clock_reading :: "datetime \<Rightarrow> bool" where
  "clock_reading d =
     (1 \<le> year d \<and> year d \<le> 9999 \<and> 1 \<le> month d \<and> month d \<le> 12 \<and>
      1 \<le> day d \<and> day d \<le> 31 \<and> hour d \<le> 23 \<and> minute d \<le> 59 \<and> second d \<le> 59 \<and>
      microsecond d \<le> 999999)"

definition digits :: "nat \<Rightarrow> pystr \<Rightarrow> bool" where
  "digits n s = (length s = n \<and> list_all (\<lambda>c. 48 \<le> c \<and> c \<le> 57) s)"

definition iso8601_utc :: "pystr \<Rightarrow> bool" where
  "iso8601_utc s =
     (\<exists>Y M D h m sec frac.
        s = Y @ ascii ''-'' @ M @ ascii ''-'' @ D @ ascii ''T'' @ h @ ascii '':'' @ m @
            ascii '':'' @ sec @ frac @ ascii ''+00:00'' \<and>
        digits 4 Y \<and> digits 2 M \<and> digits 2 D \<and> digits 2 h \<and> digits 2 m \<and> digits 2 sec \<and>
        (frac = [] \<or> (\<exists>f. frac = ascii ''.'' @ f \<and> digits 6 f)))"

section \<open>Inputs for the examples\<close>

definition example_rt :: runtime where
  "example_rt = \<lparr>alertharvest_url = ascii ''http://127.0.0.1:8000'', int_max_str_digits = 4300\<rparr>"

definition example_now :: datetime where
  "example_now = \<lparr>year = 2024, month = 5, day = 17, hour = 8, minute = 30, second = 9,
                   microsecond = 1250\<rparr>"

definition always :: "outcome \<Rightarrow> backend" where
  "always out req = out"

definition body_success :: body where
  "body_success = Dict [ascii ''status'' \<mapsto> Str (ascii ''success'')]"

definition body_not_found :: body where
  "body_not_found =
     Dict [ascii ''status'' \<mapsto> Str (ascii ''error''),
           ascii ''message'' \<mapsto> Str (ascii ''not found'')]"

section \<open>Facts about the string functions\<close>

lemma strip_Nil_iff: "strip s = [] \<longleftrightarrow> blank s"
proof
  assume "blank s"
  then have "dropWhile isspace s = []"
    by (simp add: blank_def list_all_iff dropWhile_eq_Nil_conv)
  then show "strip s = []"
    by (simp only: strip_def lstrip_def rstrip_def dropWhile.simps rev.simps)
next
  assume e: "strip s = []"
  show "blank s"
  proof (rule ccontr)
    assume "\<not> blank s"
    then have ne: "dropWhile isspace s \<noteq> []"
      by (simp add: blank_def list_all_iff dropWhile_eq_Nil_conv)
    then have "\<not> isspace (hd (dropWhile isspace s))"
      by (rule hd_dropWhile)
    moreover have "hd (dropWhile isspace s) \<in> set (rev (dropWhile isspace s))"
      using ne by simp
    ultimately have "dropWhile isspace (rev (dropWhile isspace s)) \<noteq> []"
      by (metis dropWhile_eq_Nil_conv)
    then show False
      using e by (simp add: strip_def lstrip_def rstrip_def)
  qed
qed

section \<open>No exception leaves a tool\<close>

lemma create_alert_returns:
  "\<exists>r. snd (create_alert rt send now location severity message source timestamp) = Inr r"
  by (simp add: create_alert_def Let_def split: sum.split exn.split)

lemma acknowledge_alert_returns: "\<exists>r. snd (acknowledge_alert rt send alert_id) = Inr r"
  by (simp add: acknowledge_alert_def Let_def split: sum.split exn.split option.split)

lemma acknowledge_alerts_bulk_returns:
  "\<exists>r. snd (acknowledge_alerts_bulk rt send alert_ids) = Inr r"
  by (simp add: acknowledge_alerts_bulk_def Let_def split: sum.split exn.split option.split)

lemma unacknowledge_alert_returns: "\<exists>r. snd (unacknowledge_alert rt send alert_id) = Inr r"
  by (simp add: unacknowledge_alert_def Let_def split: sum.split exn.split option.split)

lemma close_alert_returns: "\<exists>r. snd (close_alert rt send alert_id) = Inr r"
  by (simp add: close_alert_def Let_def split: sum.split exn.split option.split)

lemma close_alerts_bulk_returns: "\<exists>r. snd (close_alerts_bulk rt send alert_ids) = Inr r"
  by (simp add: close_alerts_bulk_def Let_def split: sum.split exn.split option.split)

lemma close_expired_alerts_returns: "\<exists>r. snd (close_expired_alerts rt send) = Inr r"
  by (simp add: close_expired_alerts_def Let_def split: sum.split exn.split)

text \<open>
  Claim C1. Each of the seven tools returns a string, whatever its arguments and
  whatever the backend does: an argument that fails validation, a body whose status is
  not success, an HTTP error status, a request that fails or times out, a body that
  cannot be decoded. No exception leaves a tool.
\<close>

theorem tools_always_return_a_string:
  "(\<exists>r. snd (create_alert rt send now location severity message source timestamp) = Inr r) \<and>
   (\<exists>r. snd (acknowledge_alert rt send alert_id) = Inr r) \<and>
   (\<exists>r. snd (acknowledge_alerts_bulk rt send alert_ids) = Inr r) \<and>
   (\<exists>r. snd (unacknowledge_alert rt send alert_id) = Inr r) \<and>
   (\<exists>r. snd (close_alert rt send alert_id) = Inr r) \<and>
   (\<exists>r. snd (close_alerts_bulk rt send alert_ids) = Inr r) \<and>
   (\<exists>r. snd (close_expired_alerts rt send) = Inr r)"
  by (simp only: create_alert_returns acknowledge_alert_returns
      acknowledge_alerts_bulk_returns unacknowledge_alert_returns close_alert_returns
      close_alerts_bulk_returns close_expired_alerts_returns simp_thms)

theorem tools_always_return_a_string_witness:
  "(\<exists>r. snd (create_alert example_rt (always (Response 200 (Undecodable (ascii ''Expecting value''))))
              example_now (ascii ''lab'') (ascii ''MAJOR'') (ascii ''fan'') (ascii ''probe'') [])
         = Inr r) \<and>
   (\<exists>r. snd (acknowledge_alert example_rt (always (Response 200 (Undecodable (ascii ''Expecting value''))))
              (ascii ''7'')) = Inr r) \<and>
   (\<exists>r. snd (acknowledge_alerts_bulk example_rt
              (always (Response 200 (Undecodable (ascii ''Expecting value'')))) (ascii ''1,x,3''))
         = Inr r) \<and>
   (\<exists>r. snd (unacknowledge_alert example_rt
              (always (Response 200 (Undecodable (ascii ''Expecting value'')))) (ascii ''7''))
         = Inr r) \<and>
   (\<exists>r. snd (close_alert example_rt (always (Response 200 (Undecodable (ascii ''Expecting value''))))
              (ascii ''7'')) = Inr r) \<and>
   (\<exists>r. snd (close_alerts_bulk example_rt
              (always (Response 200 (Undecodable (ascii ''Expecting value'')))) (ascii ''1,x,3''))
         = Inr r) \<and>
   (\<exists>r. snd (close_expired_alerts example_rt
              (always (Response 200 (Undecodable (ascii ''Expecting value''))))) = Inr r)"
  by (rule tools_always_return_a_string)

section \<open>Required arguments\<close>

lemma create_alert_blank:
  "blank location \<or> blank severity \<or> blank message \<or> blank source \<Longrightarrow>
   fst (create_alert rt send now location severity message source timestamp) = []"
  by (auto simp add: create_alert_def strip_Nil_iff)

text \<open>
  Claim C2. When a required argument is blank (empty or white space only), the tool
  sends no request and returns the failure string that names the argument: for
  \<open>create_alert\<close> the first blank one of location, severity, message and source, for
  the tools on one alert the alert id, for the bulk tools the list of ids. The checks
  come before the request.
\<close>

theorem blank_required_field_rejected:
  "(blank location \<or> blank severity \<or> blank message \<or> blank source \<longrightarrow>
      fst (create_alert rt send now location severity message source timestamp) = []) \<and>
   (blank location \<longrightarrow>
      snd (create_alert rt send now location severity message source timestamp) =
        Inr (cross_mark @ ascii '' Error: Location is required'')) \<and>
   (\<not> blank location \<and> blank severity \<longrightarrow>
      snd (create_alert rt send now location severity message source timestamp) =
        Inr (cross_mark @ ascii '' Error: Severity is required'')) \<and>
   (\<not> blank location \<and> \<not> blank severity \<and> blank message \<longrightarrow>
      snd (create_alert rt send now location severity message source timestamp) =
        Inr (cross_mark @ ascii '' Error: Message is required'')) \<and>
   (\<not> blank location \<and> \<not> blank severity \<and> \<not> blank message \<and> blank source \<longrightarrow>
      snd (create_alert rt send now location severity message source timestamp) =
        Inr (cross_mark @ ascii '' Error: Source is required'')) \<and>
   (blank alert_id \<longrightarrow>
      acknowledge_alert rt send alert_id =
        ([], Inr (cross_mark @ ascii '' Error: Alert ID is required'')) \<and>
      unacknowledge_alert rt send alert_id =
        ([], Inr (cross_mark @ ascii '' Error: Alert ID is required'')) \<and>
      close_alert rt send alert_id =
        ([], Inr (cross_mark @ ascii '' Error: Alert ID is required''))) \<and>
   (blank alert_ids \<longrightarrow>
      acknowledge_alerts_bulk rt send alert_ids =
        ([], Inr (cross_mark @ ascii '' Error: Alert IDs are required (comma-separated)'')) \<and>
      close_alerts_bulk rt send alert_ids =
        ([], Inr (cross_mark @ ascii '' Error: Alert IDs are required (comma-separated)'')))"
  by (simp add: create_alert_blank create_alert_def acknowledge_alert_def
      unacknowledge_alert_def close_alert_def acknowledge_alerts_bulk_def
      close_alerts_bulk_def strip_Nil_iff)

theorem blank_required_field_rejected_witness:
  "create_alert example_rt (always (Response 200 body_success)) example_now
       [] (ascii ''MAJOR'') (ascii ''fan'') (ascii ''probe'') [] =
     ([], Inr (cross_mark @ ascii '' Error: Location is required'')) \<and>
   create_alert example_rt (always (Response 200 body_success)) example_now
       (ascii ''lab'') [32, 9] (ascii ''fan'') (ascii ''probe'') [] =
     ([], Inr (cross_mark @ ascii '' Error: Severity is required'')) \<and>
   create_alert example_rt (always (Response 200 body_success)) example_now
       (ascii ''lab'') (ascii ''MAJOR'') [160] (ascii ''probe'') [] =
     ([], Inr (cross_mark @ ascii '' Error: Message is required'')) \<and>
   create_alert example_rt (always (Response 200 body_success)) example_now
       (ascii ''lab'') (ascii ''MAJOR'') (ascii ''fan'') (ascii ''   '') [] =
     ([], Inr (cross_mark @ ascii '' Error: Source is required'')) \<and>
   acknowledge_alert example_rt (always (Response 200 body_success)) (ascii '' '') =
     ([], Inr (cross_mark @ ascii '' Error: Alert ID is required'')) \<and>
   close_alerts_bulk example_rt (always (Response 200 body_success)) [] =
     ([], Inr (cross_mark @ ascii '' Error: Alert IDs are required (comma-separated)''))"
proof -
  have b: "blank []" "blank [32, 9]" "blank [160]" "blank (ascii ''   '')" "blank (ascii '' '')"
    "\<not> blank (ascii ''lab'')" "\<not> blank (ascii ''MAJOR'')" "\<not> blank (ascii ''fan'')"
    by (simp_all add: blank_def ascii_def isspace_def whitespace_def)
  show ?thesis
    using b
      blank_required_field_rejected [where rt = example_rt
        and send = "always (Response 200 body_success)" and now = example_now
        and location = "[]" and severity = "ascii ''MAJOR''" and message = "ascii ''fan''"
        and source = "ascii ''probe''" and timestamp = "[]" and alert_id = "ascii '' ''"
        and alert_ids = "[]"]
      blank_required_field_rejected [where rt = example_rt
        and send = "always (Response 200 body_success)" and now = example_now
        and location = "ascii ''lab''" and severity = "[32, 9]" and message = "ascii ''fan''"
        and source = "ascii ''probe''" and timestamp = "[]" and alert_id = "ascii '' ''"
        and alert_ids = "[]"]
      blank_required_field_rejected [where rt = example_rt
        and send = "always (Response 200 body_success)" and now = example_now
        and location = "ascii ''lab''" and severity = "ascii ''MAJOR''" and message = "[160]"
        and source = "ascii ''probe''" and timestamp = "[]" and alert_id = "ascii '' ''"
        and alert_ids = "[]"]
      blank_required_field_rejected [where rt = example_rt
        and send = "always (Response 200 body_success)" and now = example_now
        and location = "ascii ''lab''" and severity = "ascii ''MAJOR''"
        and message = "ascii ''fan''" and source = "ascii ''   ''" and timestamp = "[]"
        and alert_id = "ascii '' ''" and alert_ids = "[]"]
    by (simp add: prod_eq_iff)
qed

section \<open>The identifiers of the bulk tools\<close>

lemma parse_id_list_tokens:
  "parse_id_list lim alert_ids = those (map (py_int lim) (tokens alert_ids))"
  by (simp add: parse_id_list_def tokens_def filter_map comp_def)

lemma those_map_None: "those (map f xs) = None \<longleftrightarrow> (\<exists>x\<in>set xs. f x = None)"
  by (induction xs) (auto split: option.splits)

lemma those_map_Some:
  "\<forall>x\<in>set xs. f x \<noteq> None \<Longrightarrow> those (map f xs) = Some (map (the \<circ> f) xs)"
  by (induction xs) (auto split: option.splits)

lemma split_pieces: "t \<in> set (split sep s) \<Longrightarrow> set t \<subseteq> set s"
proof (induction s arbitrary: t)
  case Nil
  then show ?case by simp
next
  case (Cons c cs)
  show ?case
  proof (cases "split sep cs")
    case Nil
    with Cons.prems show ?thesis by (auto split: if_splits)
  next
    case (Cons p ps)
    then have "set p \<subseteq> set cs" and "\<forall>q\<in>set ps. set q \<subseteq> set cs"
      using Cons.IH by simp_all
    with Cons Cons.prems show ?thesis by (auto split: if_splits)
  qed
qed

lemma tokens_blank: "blank alert_ids \<Longrightarrow> tokens alert_ids = []"
proof -
  assume b: "blank alert_ids"
  have "strip t = []" if "t \<in> set (split 44 alert_ids)" for t
  proof -
    from that have "set t \<subseteq> set alert_ids" by (rule split_pieces)
    with b have "blank t" by (auto simp: blank_def list_all_iff)
    then show ?thesis by (simp add: strip_Nil_iff)
  qed
  then show ?thesis by (simp add: tokens_def filter_empty_conv)
qed

lemma acknowledge_alerts_bulk_not_numbers:
  "\<exists>t\<in>set (tokens alert_ids). py_int (int_max_str_digits rt) t = None \<Longrightarrow>
   acknowledge_alerts_bulk rt send alert_ids =
     ([], Inr (cross_mark @ ascii '' Error: All alert IDs must be numbers''))"
proof -
  assume a: "\<exists>t\<in>set (tokens alert_ids). py_int (int_max_str_digits rt) t = None"
  then have "tokens alert_ids \<noteq> []" by auto
  then have "\<not> blank alert_ids" using tokens_blank by blast
  moreover from a have "parse_id_list (int_max_str_digits rt) alert_ids = None"
    by (simp add: parse_id_list_tokens those_map_None)
  ultimately show ?thesis
    by (simp add: acknowledge_alerts_bulk_def strip_Nil_iff)
qed

lemma acknowledge_alerts_bulk_no_ids:
  "tokens alert_ids = [] \<Longrightarrow> \<not> blank alert_ids \<Longrightarrow>
   acknowledge_alerts_bulk rt send alert_ids =
     ([], Inr (cross_mark @ ascii '' Error: No valid alert IDs provided''))"
  by (simp add: acknowledge_alerts_bulk_def strip_Nil_iff parse_id_list_tokens)

lemma acknowledge_alerts_bulk_request:
  "tokens alert_ids \<noteq> [] \<Longrightarrow>
   \<forall>t\<in>set (tokens alert_ids). py_int (int_max_str_digits rt) t \<noteq> None \<Longrightarrow>
   fst (acknowledge_alerts_bulk rt send alert_ids) =
     [\<lparr>verb = PUT, url = alertharvest_url rt @ ascii ''/api/acknowledge_alerts_bulk/'',
       json = Some [(ascii ''alert_ids'',
                     JIntList (map (the \<circ> py_int (int_max_str_digits rt)) (tokens alert_ids)))],
       timeout = 10\<rparr>]"
proof -
  assume ne: "tokens alert_ids \<noteq> []"
    and ok: "\<forall>t\<in>set (tokens alert_ids). py_int (int_max_str_digits rt) t \<noteq> None"
  from ne have "\<not> blank alert_ids" using tokens_blank by blast
  moreover from ok have "parse_id_list (int_max_str_digits rt) alert_ids =
      Some (map (the \<circ> py_int (int_max_str_digits rt)) (tokens alert_ids))"
    by (simp only: parse_id_list_tokens those_map_Some)
  ultimately show ?thesis
    using ne by (simp add: acknowledge_alerts_bulk_def strip_Nil_iff Let_def)
qed

lemma close_alerts_bulk_not_numbers:
  "\<exists>t\<in>set (tokens alert_ids). py_int (int_max_str_digits rt) t = None \<Longrightarrow>
   close_alerts_bulk rt send alert_ids =
     ([], Inr (cross_mark @ ascii '' Error: All alert IDs must be numbers''))"
proof -
  assume a: "\<exists>t\<in>set (tokens alert_ids). py_int (int_max_str_digits rt) t = None"
  then have "tokens alert_ids \<noteq> []" by auto
  then have "\<not> blank alert_ids" using tokens_blank by blast
  moreover from a have "parse_id_list (int_max_str_digits rt) alert_ids = None"
    by (simp add: parse_id_list_tokens those_map_None)
  ultimately show ?thesis
    by (simp add: close_alerts_bulk_def strip_Nil_iff)
qed

lemma close_alerts_bulk_no_ids:
  "tokens alert_ids = [] \<Longrightarrow> \<not> blank alert_ids \<Longrightarrow>
   close_alerts_bulk rt send alert_ids =
     ([], Inr (cross_mark @ ascii '' Error: No valid alert IDs provided''))"
  by (simp add: close_alerts_bulk_def strip_Nil_iff parse_id_list_tokens)

lemma close_alerts_bulk_request:
  "tokens alert_ids \<noteq> [] \<Longrightarrow>
   \<forall>t\<in>set (tokens alert_ids). py_int (int_max_str_digits rt) t \<noteq> None \<Longrightarrow>
   fst (close_alerts_bulk rt send alert_ids) =
     [\<lparr>verb = PUT, url = alertharvest_url rt @ ascii ''/api/close_alerts_bulk/'',
       json = Some [(ascii ''alert_ids'',
                     JIntList (map (the \<circ> py_int (int_max_str_digits rt)) (tokens alert_ids)))],
       timeout = 10\<rparr>]"
proof -
  assume ne: "tokens alert_ids \<noteq> []"
    and ok: "\<forall>t\<in>set (tokens alert_ids). py_int (int_max_str_digits rt) t \<noteq> None"
  from ne have "\<not> blank alert_ids" using tokens_blank by blast
  moreover from ok have "parse_id_list (int_max_str_digits rt) alert_ids =
      Some (map (the \<circ> py_int (int_max_str_digits rt)) (tokens alert_ids))"
    by (simp only: parse_id_list_tokens those_map_Some)
  ultimately show ?thesis
    using ne by (simp add: close_alerts_bulk_def strip_Nil_iff Let_def)
qed

lemmas string_eval = ascii_def strip_def lstrip_def rstrip_def isspace_def whitespace_def
lemmas int_eval = py_int_def int_isspace_def decimal_def decimal_zeros_def digits_value_def

lemma tokens_example: "tokens (ascii ''1, 2, , 3'') = [ascii ''1'', ascii ''2'', ascii ''3'']"
  by (simp add: tokens_def string_eval)

lemma tokens_bad_example: "tokens (ascii ''1,x,3'') = [ascii ''1'', ascii ''x'', ascii ''3'']"
  by (simp add: tokens_def string_eval)

lemma py_int_examples:
  "py_int lim (ascii ''1'') = Some 1" "py_int lim (ascii ''2'') = Some 2"
  "py_int lim (ascii ''3'') = Some 3" "py_int lim (ascii ''x'') = None"
  by (auto simp add: string_eval int_eval Let_def)


text \<open>
  Claim C3. The bulk tools split \<open>alert_ids\<close> at the commas, trim every piece and
  drop the empty ones. If \<open>int\<close> rejects one of the remaining tokens, or if no token
  remains, they return a failure string and send nothing. Otherwise they send one
  request whose body holds the integers of the tokens. So \<open>"1, 2, , 3"\<close> gives one
  request with 1, 2 and 3, and \<open>"1,x,3"\<close> gives none.
\<close>

theorem bulk_ids_parsed_before_request:
  "((\<exists>t\<in>set (tokens alert_ids). py_int (int_max_str_digits rt) t = None) \<longrightarrow>
      acknowledge_alerts_bulk rt send alert_ids =
        ([], Inr (cross_mark @ ascii '' Error: All alert IDs must be numbers'')) \<and>
      close_alerts_bulk rt send alert_ids =
        ([], Inr (cross_mark @ ascii '' Error: All alert IDs must be numbers''))) \<and>
   (tokens alert_ids = [] \<and> \<not> blank alert_ids \<longrightarrow>
      acknowledge_alerts_bulk rt send alert_ids =
        ([], Inr (cross_mark @ ascii '' Error: No valid alert IDs provided'')) \<and>
      close_alerts_bulk rt send alert_ids =
        ([], Inr (cross_mark @ ascii '' Error: No valid alert IDs provided''))) \<and>
   (tokens alert_ids = [] \<and> blank alert_ids \<longrightarrow>
      acknowledge_alerts_bulk rt send alert_ids =
        ([], Inr (cross_mark @ ascii '' Error: Alert IDs are required (comma-separated)'')) \<and>
      close_alerts_bulk rt send alert_ids =
        ([], Inr (cross_mark @ ascii '' Error: Alert IDs are required (comma-separated)''))) \<and>
   (tokens alert_ids \<noteq> [] \<and>
    (\<forall>t\<in>set (tokens alert_ids). py_int (int_max_str_digits rt) t \<noteq> None) \<longrightarrow>
      fst (acknowledge_alerts_bulk rt send alert_ids) =
        [\<lparr>verb = PUT, url = alertharvest_url rt @ ascii ''/api/acknowledge_alerts_bulk/'',
          json = Some [(ascii ''alert_ids'', JIntList (map (the \<circ> py_int (int_max_str_digits rt)) (tokens alert_ids)))], timeout = 10\<rparr>] \<and>
      fst (close_alerts_bulk rt send alert_ids) =
        [\<lparr>verb = PUT, url = alertharvest_url rt @ ascii ''/api/close_alerts_bulk/'',
          json = Some [(ascii ''alert_ids'', JIntList (map (the \<circ> py_int (int_max_str_digits rt)) (tokens alert_ids)))], timeout = 10\<rparr>]) \<and>
   tokens (ascii ''1, 2, , 3'') = [ascii ''1'', ascii ''2'', ascii ''3''] \<and>
   fst (acknowledge_alerts_bulk rt send (ascii ''1, 2, , 3'')) =
     [\<lparr>verb = PUT, url = alertharvest_url rt @ ascii ''/api/acknowledge_alerts_bulk/'',
          json = Some [(ascii ''alert_ids'', JIntList [1, 2, 3])], timeout = 10\<rparr>] \<and>
   fst (acknowledge_alerts_bulk rt send (ascii ''1,x,3'')) = []"
proof -
  let ?lim = "int_max_str_digits rt"
  have ok: "\<forall>t\<in>set (tokens (ascii ''1, 2, , 3'')). py_int ?lim t \<noteq> None"
    by (simp add: tokens_example py_int_examples)
  have ids: "map (the \<circ> py_int ?lim) (tokens (ascii ''1, 2, , 3'')) = [1, 2, 3]"
    by (simp add: tokens_example py_int_examples)
  have good: "fst (acknowledge_alerts_bulk rt send (ascii ''1, 2, , 3'')) =
     [\<lparr>verb = PUT, url = alertharvest_url rt @ ascii ''/api/acknowledge_alerts_bulk/'',
          json = Some [(ascii ''alert_ids'', JIntList [1, 2, 3])], timeout = 10\<rparr>]"
    using acknowledge_alerts_bulk_request [of "ascii ''1, 2, , 3''" rt send] ok
    by (simp add: tokens_example py_int_examples)
  have "\<exists>t\<in>set (tokens (ascii ''1,x,3'')). py_int ?lim t = None"
    by (simp add: tokens_bad_example py_int_examples)
  then have bad: "fst (acknowledge_alerts_bulk rt send (ascii ''1,x,3'')) = []"
    by (simp only: acknowledge_alerts_bulk_not_numbers fst_conv)
  show ?thesis
    apply (intro conjI impI)
    subgoal by (rule acknowledge_alerts_bulk_not_numbers)
    subgoal by (rule close_alerts_bulk_not_numbers)
    subgoal by (simp add: acknowledge_alerts_bulk_no_ids)
    subgoal by (simp add: close_alerts_bulk_no_ids)
    subgoal by (simp add: acknowledge_alerts_bulk_def strip_Nil_iff)
    subgoal by (simp add: close_alerts_bulk_def strip_Nil_iff)
    subgoal by (simp add: acknowledge_alerts_bulk_request)
    subgoal by (simp add: close_alerts_bulk_request)
    subgoal by (rule tokens_example)
    subgoal by (rule good)
    subgoal by (rule bad)
    done
qed


theorem bulk_ids_parsed_before_request_witness:
  "close_alerts_bulk example_rt (always (Response 200 body_success)) (ascii ''4,y'') =
     ([], Inr (cross_mark @ ascii '' Error: All alert IDs must be numbers'')) \<and>
   close_alerts_bulk example_rt (always (Response 200 body_success)) (ascii '' , '') =
     ([], Inr (cross_mark @ ascii '' Error: No valid alert IDs provided'')) \<and>
   acknowledge_alerts_bulk example_rt (always (Response 200 body_success)) (ascii ''  '') =
     ([], Inr (cross_mark @ ascii '' Error: Alert IDs are required (comma-separated)'')) \<and>
   fst (close_alerts_bulk example_rt (always (Response 200 body_success)) (ascii ''7,+8'')) =
     [\<lparr>verb = PUT, url = alertharvest_url example_rt @ ascii ''/api/close_alerts_bulk/'',
       json = Some [(ascii ''alert_ids'', JIntList [7, 8])], timeout = 10\<rparr>]"
proof -
  have t: "tokens (ascii ''4,y'') = [ascii ''4'', ascii ''y'']" "tokens (ascii '' , '') = []"
    "tokens (ascii ''  '') = []" "tokens (ascii ''7,+8'') = [ascii ''7'', ascii ''+8'']"
    by (simp_all add: tokens_def string_eval)
  have b: "\<not> blank (ascii '' , '')" "blank (ascii ''  '')"
    by (simp_all add: blank_def ascii_def isspace_def whitespace_def)
  have i: "py_int lim (ascii ''4'') = Some 4" "py_int lim (ascii ''y'') = None"
    "py_int lim (ascii ''7'') = Some 7" "py_int lim (ascii ''+8'') = Some 8" for lim
    by (auto simp add: string_eval int_eval Let_def)
  show ?thesis
    using
      bulk_ids_parsed_before_request [where rt = example_rt
        and send = "always (Response 200 body_success)" and alert_ids = "ascii ''4,y''"]
      bulk_ids_parsed_before_request [where rt = example_rt
        and send = "always (Response 200 body_success)" and alert_ids = "ascii '' , ''"]
      bulk_ids_parsed_before_request [where rt = example_rt
        and send = "always (Response 200 body_success)" and alert_ids = "ascii ''  ''"]
      bulk_ids_parsed_before_request [where rt = example_rt
        and send = "always (Response 200 body_success)" and alert_ids = "ascii ''7,+8''"]
    by (simp add: t b i)
qed

section \<open>From the response to the result\<close>

lemma unknown_error_message:
  "d (ascii ''message'') = Some v \<Longrightarrow> unknown_error d = cross_mark @ ascii '' Error: '' @ fmt v"
  by (simp add: unknown_error_def dict_get_def)

lemma unknown_error_fallback:
  "d (ascii ''message'') = None \<Longrightarrow>
   unknown_error d = cross_mark @ ascii '' Error: Unknown error''"
  by (simp add: unknown_error_def dict_get_def ascii_def)

lemma create_alert_answered:
  "answered send (create_alert rt send now location severity message source timestamp) code b \<Longrightarrow>
   snd (create_alert rt send now location severity message source timestamp) =
     (if \<not> is_success code then
        Inr (cross_mark @ ascii '' API Error: HTTP '' @ str_nat code)
      else case b of
        Dict d \<Rightarrow>
          if status_is_success d then
            Inr (check_mark @ ascii '' Alert Created Successfully'' @ [10] @
             [128205] @ ascii '' Location: '' @ location @ [10] @
             [9888, 65039] @ ascii '' Severity: '' @ severity @ [10] @
             [128172] @ ascii '' Message: '' @ message @ [10] @
             [128279] @ ascii '' Source: '' @ source @ [10] @
             [9201, 65039] @ ascii '' Timestamp: '' @
             (if strip timestamp \<noteq> [] then strip timestamp else format_timestamp now))
          else Inr (unknown_error d)
      | Undecodable e \<Rightarrow> Inr (cross_mark @ ascii '' Error: '' @ e)
      | NotDict t \<Rightarrow>
          Inr (cross_mark @ ascii '' Error: '' @ [39] @ t @ [39] @
               ascii '' object has no attribute '' @ [39] @ ascii ''get'' @ [39]))"
  by (auto simp add: create_alert_def answered_def Let_def fetch_def
      split: if_splits option.splits body.splits)

lemma acknowledge_alert_answered:
  "answered send (acknowledge_alert rt send alert_id) code b \<Longrightarrow>
   snd (acknowledge_alert rt send alert_id) =
     (if \<not> is_success code then
        Inr (cross_mark @ ascii '' API Error: HTTP '' @ str_nat code @
             ascii '' - Alert may not exist'')
      else case b of
        Dict d \<Rightarrow>
          if status_is_success d then
            Inr (check_mark @ ascii '' Alert #'' @
             str_int (the (py_int (int_max_str_digits rt) (strip alert_id))) @
             ascii '' acknowledged successfully'')
          else Inr (unknown_error d)
      | Undecodable e \<Rightarrow> Inr (cross_mark @ ascii '' Error: '' @ e)
      | NotDict t \<Rightarrow>
          Inr (cross_mark @ ascii '' Error: '' @ [39] @ t @ [39] @
               ascii '' object has no attribute '' @ [39] @ ascii ''get'' @ [39]))"
  by (auto simp add: acknowledge_alert_def answered_def Let_def fetch_def
      split: if_splits option.splits body.splits)

lemma acknowledge_alerts_bulk_answered:
  "answered send (acknowledge_alerts_bulk rt send alert_ids) code b \<Longrightarrow>
   snd (acknowledge_alerts_bulk rt send alert_ids) =
     (if \<not> is_success code then
        Inr (cross_mark @ ascii '' API Error: HTTP '' @ str_nat code)
      else case b of
        Dict d \<Rightarrow>
          if status_is_success d then
            Inr (check_mark @ ascii '' '' @
             str_nat (length (the (parse_id_list (int_max_str_digits rt) alert_ids))) @
             ascii '' alerts acknowledged successfully: '' @
             str_int_list (the (parse_id_list (int_max_str_digits rt) alert_ids)))
          else Inr (unknown_error d)
      | Undecodable e \<Rightarrow> Inr (cross_mark @ ascii '' Error: '' @ e)
      | NotDict t \<Rightarrow>
          Inr (cross_mark @ ascii '' Error: '' @ [39] @ t @ [39] @
               ascii '' object has no attribute '' @ [39] @ ascii ''get'' @ [39]))"
  by (auto simp add: acknowledge_alerts_bulk_def answered_def Let_def fetch_def
      split: if_splits option.splits body.splits)

lemma unacknowledge_alert_answered:
  "answered send (unacknowledge_alert rt send alert_id) code b \<Longrightarrow>
   snd (unacknowledge_alert rt send alert_id) =
     (if \<not> is_success code then
        Inr (cross_mark @ ascii '' API Error: HTTP '' @ str_nat code @
             ascii '' - Alert may not exist'')
      else case b of
        Dict d \<Rightarrow>
          if status_is_success d then
            Inr (check_mark @ ascii '' Alert #'' @
             str_int (the (py_int (int_max_str_digits rt) (strip alert_id))) @
             ascii '' unacknowledged successfully'')
          else Inr (unknown_error d)
      | Undecodable e \<Rightarrow> Inr (cross_mark @ ascii '' Error: '' @ e)
      | NotDict t \<Rightarrow>
          Inr (cross_mark @ ascii '' Error: '' @ [39] @ t @ [39] @
               ascii '' object has no attribute '' @ [39] @ ascii ''get'' @ [39]))"
  by (auto simp add: unacknowledge_alert_def answered_def Let_def fetch_def
      split: if_splits option.splits body.splits)

lemma close_alert_answered:
  "answered send (close_alert rt send alert_id) code b \<Longrightarrow>
   snd (close_alert rt send alert_id) =
     (if \<not> is_success code then
        Inr (cross_mark @ ascii '' API Error: HTTP '' @ str_nat code @
             ascii '' - Alert may not exist'')
      else case b of
        Dict d \<Rightarrow>
          if status_is_success d then
            Inr (check_mark @ ascii '' Alert #'' @
             str_int (the (py_int (int_max_str_digits rt) (strip alert_id))) @
             ascii '' closed successfully'')
          else Inr (unknown_error d)
      | Undecodable e \<Rightarrow> Inr (cross_mark @ ascii '' Error: '' @ e)
      | NotDict t \<Rightarrow>
          Inr (cross_mark @ ascii '' Error: '' @ [39] @ t @ [39] @
               ascii '' object has no attribute '' @ [39] @ ascii ''get'' @ [39]))"
  by (auto simp add: close_alert_def answered_def Let_def fetch_def
      split: if_splits option.splits body.splits)

lemma close_alerts_bulk_answered:
  "answered send (close_alerts_bulk rt send alert_ids) code b \<Longrightarrow>
   snd (close_alerts_bulk rt send alert_ids) =
     (if \<not> is_success code then
        Inr (cross_mark @ ascii '' API Error: HTTP '' @ str_nat code)
      else case b of
        Dict d \<Rightarrow>
          if status_is_success d then
            Inr (check_mark @ ascii '' '' @
             str_nat (length (the (parse_id_list (int_max_str_digits rt) alert_ids))) @
             ascii '' alerts closed successfully: '' @
             str_int_list (the (parse_id_list (int_max_str_digits rt) alert_ids)))
          else Inr (unknown_error d)
      | Undecodable e \<Rightarrow> Inr (cross_mark @ ascii '' Error: '' @ e)
      | NotDict t \<Rightarrow>
          Inr (cross_mark @ ascii '' Error: '' @ [39] @ t @ [39] @
               ascii '' object has no attribute '' @ [39] @ ascii ''get'' @ [39]))"
  by (auto simp add: close_alerts_bulk_def answered_def Let_def fetch_def
      split: if_splits option.splits body.splits)

lemma close_expired_alerts_answered:
  "answered send (close_expired_alerts rt send) code b \<Longrightarrow>
   snd (close_expired_alerts rt send) =
     (if \<not> is_success code then
        Inr (cross_mark @ ascii '' API Error: HTTP '' @ str_nat code)
      else case b of
        Dict d \<Rightarrow>
          if status_is_success d then
            Inr (check_mark @ ascii '' '' @
             fmt (dict_get d (ascii ''message'')
                    (Str (ascii ''Expired alerts closed successfully''))))
          else Inr (unknown_error d)
      | Undecodable e \<Rightarrow> Inr (cross_mark @ ascii '' Error: '' @ e)
      | NotDict t \<Rightarrow>
          Inr (cross_mark @ ascii '' Error: '' @ [39] @ t @ [39] @
               ascii '' object has no attribute '' @ [39] @ ascii ''get'' @ [39]))"
  by (auto simp add: close_expired_alerts_def answered_def Let_def fetch_def
      split: if_splits option.splits body.splits)

lemmas example_eval = example_rt_def always_def body_success_def body_not_found_def
  fetch_def is_success_def status_is_success_def unknown_error_def dict_get_def
  str_int_def str_nat.simps

text \<open>
  Claim C4. When a tool has sent its request and a response has come back, the
  status code decides first. A code that is not a success code gives the failure
  string with that code, whatever the body is. With a success code and a body that is
  a dict, the status entry of the body decides: \<open>"success"\<close> gives the success string
  of the tool, anything else the failure string with the message entry of the body, or
  with \<open>Unknown error\<close> when there is none. For \<open>close_alert("42")\<close>: status 200
  and \<open>{"status": "success"}\<close> give a success string with 42, status 200 and
  \<open>{"status": "error", "message": "not found"}\<close> give a failure string with
  \<open>not found\<close>, status 404 gives a failure string with 404 for every body.
\<close>

theorem response_decides_result:
  "(answered send (create_alert rt send now location severity message source timestamp) code b \<and> \<not> is_success code \<longrightarrow>
      snd (create_alert rt send now location severity message source timestamp) =
        Inr (cross_mark @ ascii '' API Error: HTTP '' @ str_nat code)) \<and>
   (answered send (acknowledge_alert rt send alert_id) code b \<and> \<not> is_success code \<longrightarrow>
      snd (acknowledge_alert rt send alert_id) =
        Inr (cross_mark @ ascii '' API Error: HTTP '' @ str_nat code @
             ascii '' - Alert may not exist'')) \<and>
   (answered send (acknowledge_alerts_bulk rt send alert_ids) code b \<and> \<not> is_success code \<longrightarrow>
      snd (acknowledge_alerts_bulk rt send alert_ids) =
        Inr (cross_mark @ ascii '' API Error: HTTP '' @ str_nat code)) \<and>
   (answered send (unacknowledge_alert rt send alert_id) code b \<and> \<not> is_success code \<longrightarrow>
      snd (unacknowledge_alert rt send alert_id) =
        Inr (cross_mark @ ascii '' API Error: HTTP '' @ str_nat code @
             ascii '' - Alert may not exist'')) \<and>
   (answered send (close_alert rt send alert_id) code b \<and> \<not> is_success code \<longrightarrow>
      snd (close_alert rt send alert_id) =
        Inr (cross_mark @ ascii '' API Error: HTTP '' @ str_nat code @
             ascii '' - Alert may not exist'')) \<and>
   (answered send (close_alerts_bulk rt send alert_ids) code b \<and> \<not> is_success code \<longrightarrow>
      snd (close_alerts_bulk rt send alert_ids) =
        Inr (cross_mark @ ascii '' API Error: HTTP '' @ str_nat code)) \<and>
   (answered send (close_expired_alerts rt send) code b \<and> \<not> is_success code \<longrightarrow>
      snd (close_expired_alerts rt send) =
        Inr (cross_mark @ ascii '' API Error: HTTP '' @ str_nat code)) \<and>
   (answered send (create_alert rt send now location severity message source timestamp) code (Dict d) \<and> is_success code \<and>
    status_is_success d \<longrightarrow>
      snd (create_alert rt send now location severity message source timestamp) =
        Inr (check_mark @ ascii '' Alert Created Successfully'' @ [10] @
             [128205] @ ascii '' Location: '' @ location @ [10] @
             [9888, 65039] @ ascii '' Severity: '' @ severity @ [10] @
             [128172] @ ascii '' Message: '' @ message @ [10] @
             [128279] @ ascii '' Source: '' @ source @ [10] @
             [9201, 65039] @ ascii '' Timestamp: '' @
             (if strip timestamp \<noteq> [] then strip timestamp else format_timestamp now))) \<and>
   (answered send (acknowledge_alert rt send alert_id) code (Dict d) \<and> is_success code \<and>
    status_is_success d \<longrightarrow>
      snd (acknowledge_alert rt send alert_id) =
        Inr (check_mark @ ascii '' Alert #'' @
             str_int (the (py_int (int_max_str_digits rt) (strip alert_id))) @
             ascii '' acknowledged successfully'')) \<and>
   (answered send (acknowledge_alerts_bulk rt send alert_ids) code (Dict d) \<and> is_success code \<and>
    status_is_success d \<longrightarrow>
      snd (acknowledge_alerts_bulk rt send alert_ids) =
        Inr (check_mark @ ascii '' '' @
             str_nat (length (the (parse_id_list (int_max_str_digits rt) alert_ids))) @
             ascii '' alerts acknowledged successfully: '' @
             str_int_list (the (parse_id_list (int_max_str_digits rt) alert_ids)))) \<and>
   (answered send (unacknowledge_alert rt send alert_id) code (Dict d) \<and> is_success code \<and>
    status_is_success d \<longrightarrow>
      snd (unacknowledge_alert rt send alert_id) =
        Inr (check_mark @ ascii '' Alert #'' @
             str_int (the (py_int (int_max_str_digits rt) (strip alert_id))) @
             ascii '' unacknowledged successfully'')) \<and>
   (answered send (close_alert rt send alert_id) code (Dict d) \<and> is_success code \<and>
    status_is_success d \<longrightarrow>
      snd (close_alert rt send alert_id) =
        Inr (check_mark @ ascii '' Alert #'' @
             str_int (the (py_int (int_max_str_digits rt) (strip alert_id))) @
             ascii '' closed successfully'')) \<and>
   (answered send (close_alerts_bulk rt send alert_ids) code (Dict d) \<and> is_success code \<and>
    status_is_success d \<longrightarrow>
      snd (close_alerts_bulk rt send alert_ids) =
        Inr (check_mark @ ascii '' '' @
             str_nat (length (the (parse_id_list (int_max_str_digits rt) alert_ids))) @
             ascii '' alerts closed successfully: '' @
             str_int_list (the (parse_id_list (int_max_str_digits rt) alert_ids)))) \<and>
   (answered send (close_expired_alerts rt send) code (Dict d) \<and> is_success code \<and>
    status_is_success d \<longrightarrow>
      snd (close_expired_alerts rt send) =
        Inr (check_mark @ ascii '' '' @
             fmt (dict_get d (ascii ''message'')
                    (Str (ascii ''Expired alerts closed successfully''))))) \<and>
   (answered send (create_alert rt send now location severity message source timestamp) code (Dict d) \<and> is_success code \<and>
    \<not> status_is_success d \<longrightarrow>
      snd (create_alert rt send now location severity message source timestamp) = Inr (unknown_error d)) \<and>
   (answered send (acknowledge_alert rt send alert_id) code (Dict d) \<and> is_success code \<and>
    \<not> status_is_success d \<longrightarrow>
      snd (acknowledge_alert rt send alert_id) = Inr (unknown_error d)) \<and>
   (answered send (acknowledge_alerts_bulk rt send alert_ids) code (Dict d) \<and> is_success code \<and>
    \<not> status_is_success d \<longrightarrow>
      snd (acknowledge_alerts_bulk rt send alert_ids) = Inr (unknown_error d)) \<and>
   (answered send (unacknowledge_alert rt send alert_id) code (Dict d) \<and> is_success code \<and>
    \<not> status_is_success d \<longrightarrow>
      snd (unacknowledge_alert rt send alert_id) = Inr (unknown_error d)) \<and>
   (answered send (close_alert rt send alert_id) code (Dict d) \<and> is_success code \<and>
    \<not> status_is_success d \<longrightarrow>
      snd (close_alert rt send alert_id) = Inr (unknown_error d)) \<and>
   (answered send (close_alerts_bulk rt send alert_ids) code (Dict d) \<and> is_success code \<and>
    \<not> status_is_success d \<longrightarrow>
      snd (close_alerts_bulk rt send alert_ids) = Inr (unknown_error d)) \<and>
   (answered send (close_expired_alerts rt send) code (Dict d) \<and> is_success code \<and>
    \<not> status_is_success d \<longrightarrow>
      snd (close_expired_alerts rt send) = Inr (unknown_error d)) \<and>
   (d (ascii ''message'') = Some v \<longrightarrow>
      unknown_error d = cross_mark @ ascii '' Error: '' @ fmt v) \<and>
   (d (ascii ''message'') = None \<longrightarrow>
      unknown_error d = cross_mark @ ascii '' Error: Unknown error'') \<and>
   snd (close_alert example_rt (always (Response 200 body_success)) (ascii ''42'')) =
     Inr (check_mark @ ascii '' Alert #42 closed successfully'') \<and>
   snd (close_alert example_rt (always (Response 200 body_not_found)) (ascii ''42'')) =
     Inr (cross_mark @ ascii '' Error: not found'') \<and>
   snd (close_alert example_rt (always (Response 404 b)) (ascii ''42'')) =
     Inr (cross_mark @ ascii '' API Error: HTTP 404 - Alert may not exist'')"
  apply (intro conjI impI)
    subgoal by (auto dest!: create_alert_answered)
    subgoal by (auto dest!: acknowledge_alert_answered)
    subgoal by (auto dest!: acknowledge_alerts_bulk_answered)
    subgoal by (auto dest!: unacknowledge_alert_answered)
    subgoal by (auto dest!: close_alert_answered)
    subgoal by (auto dest!: close_alerts_bulk_answered)
    subgoal by (auto dest!: close_expired_alerts_answered)
    subgoal by (auto dest!: create_alert_answered)
    subgoal by (auto dest!: acknowledge_alert_answered)
    subgoal by (auto dest!: acknowledge_alerts_bulk_answered)
    subgoal by (auto dest!: unacknowledge_alert_answered)
    subgoal by (auto dest!: close_alert_answered)
    subgoal by (auto dest!: close_alerts_bulk_answered)
    subgoal by (auto dest!: close_expired_alerts_answered)
    subgoal by (auto dest!: create_alert_answered)
    subgoal by (auto dest!: acknowledge_alert_answered)
    subgoal by (auto dest!: acknowledge_alerts_bulk_answered)
    subgoal by (auto dest!: unacknowledge_alert_answered)
    subgoal by (auto dest!: close_alert_answered)
    subgoal by (auto dest!: close_alerts_bulk_answered)
    subgoal by (auto dest!: close_expired_alerts_answered)
    subgoal by (rule unknown_error_message)
    subgoal by (rule unknown_error_fallback)
    subgoal by (simp add: close_alert_def example_eval string_eval int_eval Let_def)
    subgoal by (simp add: close_alert_def example_eval string_eval int_eval Let_def)
    subgoal by (simp add: close_alert_def example_eval string_eval int_eval Let_def)
    done
theorem response_decides_result_witness:
  "snd (acknowledge_alert example_rt (always (Response 503 (NotDict (ascii ''list''))))
          (ascii ''7'')) =
     Inr (cross_mark @ ascii '' API Error: HTTP 503 - Alert may not exist'') \<and>
   snd (close_expired_alerts example_rt (always (Response 200 body_success))) =
     Inr (check_mark @ ascii '' Expired alerts closed successfully'') \<and>
   snd (acknowledge_alerts_bulk example_rt (always (Response 200 body_not_found))
          (ascii ''4, 5'')) =
     Inr (cross_mark @ ascii '' Error: not found'')"
proof -
  have a1: "answered (always (Response 503 (NotDict (ascii ''list''))))
      (acknowledge_alert example_rt (always (Response 503 (NotDict (ascii ''list''))))
         (ascii ''7'')) 503 (NotDict (ascii ''list''))"
    by (simp add: answered_def acknowledge_alert_def example_eval string_eval int_eval Let_def)
  have a2: "answered (always (Response 200 body_success))
      (close_expired_alerts example_rt (always (Response 200 body_success))) 200
      (Dict [ascii ''status'' \<mapsto> Str (ascii ''success'')])"
    by (simp add: answered_def close_expired_alerts_def example_eval Let_def)
  have a3: "answered (always (Response 200 body_not_found))
      (acknowledge_alerts_bulk example_rt (always (Response 200 body_not_found))
         (ascii ''4, 5'')) 200
      (Dict [ascii ''status'' \<mapsto> Str (ascii ''error''),
             ascii ''message'' \<mapsto> Str (ascii ''not found'')])"
    by (simp add: answered_def acknowledge_alerts_bulk_def parse_id_list_def example_eval
        string_eval int_eval Let_def)
  have s: "is_success 200" "\<not> is_success 503"
    "status_is_success [ascii ''status'' \<mapsto> Str (ascii ''success'')]"
    "\<not> status_is_success [ascii ''status'' \<mapsto> Str (ascii ''error''),
                           ascii ''message'' \<mapsto> Str (ascii ''not found'')]"
    by (simp_all add: is_success_def status_is_success_def ascii_def)
  show ?thesis
    using a1 a2 a3 s
      response_decides_result [where rt = example_rt
        and send = "always (Response 503 (NotDict (ascii ''list'')))" and now = example_now
        and location = "[]" and severity = "[]" and message = "[]" and source = "[]"
        and timestamp = "[]" and alert_id = "ascii ''7''" and alert_ids = "ascii ''4, 5''"
        and code = 503 and b = "NotDict (ascii ''list'')"
        and d = "[ascii ''status'' \<mapsto> Str (ascii ''success'')]"
        and v = "Str []"]
      response_decides_result [where rt = example_rt
        and send = "always (Response 200 body_success)" and now = example_now
        and location = "[]" and severity = "[]" and message = "[]" and source = "[]"
        and timestamp = "[]" and alert_id = "ascii ''7''" and alert_ids = "ascii ''4, 5''"
        and code = 200 and b = "Dict [ascii ''status'' \<mapsto> Str (ascii ''success'')]"
        and d = "[ascii ''status'' \<mapsto> Str (ascii ''success'')]"
        and v = "Str []"]
      response_decides_result [where rt = example_rt
        and send = "always (Response 200 body_not_found)" and now = example_now
        and location = "[]" and severity = "[]" and message = "[]" and source = "[]"
        and timestamp = "[]" and alert_id = "ascii ''7''" and alert_ids = "ascii ''4, 5''"
        and code = 200 and b = "Dict ([ascii ''status'' \<mapsto> Str (ascii ''error''),
                  ascii ''message'' \<mapsto> Str (ascii ''not found'')])"
        and d = "[ascii ''status'' \<mapsto> Str (ascii ''error''),
                  ascii ''message'' \<mapsto> Str (ascii ''not found'')]"
        and v = "Str []"]
    by (simp add: unknown_error_def dict_get_def str_nat.simps ascii_def)
qed

section \<open>The severity of a new alert\<close>

lemma validate_severity_iff:
  "validate_severity severity \<longleftrightarrow>
   severity = ascii ''CRITICAL'' \<or> severity = ascii ''MAJOR'' \<or> severity = ascii ''WARNING''"
  by (simp add: validate_severity_def)

lemma create_alert_sent_valid:
  "fst (create_alert rt send now location severity message source timestamp) \<noteq> [] \<Longrightarrow>
   validate_severity severity"
  by (simp add: create_alert_def split: if_splits)

lemma create_alert_invalid_severity:
  "\<not> blank location \<Longrightarrow> \<not> blank severity \<Longrightarrow> \<not> blank message \<Longrightarrow> \<not> blank source \<Longrightarrow>
   \<not> validate_severity severity \<Longrightarrow>
   create_alert rt send now location severity message source timestamp =
     ([], Inr (cross_mark @
               ascii '' Error: Invalid severity. Must be one of: critical, major, warning''))"
  by (simp add: create_alert_def strip_Nil_iff)

lemma create_alert_invalid_fails:
  "\<not> validate_severity severity \<Longrightarrow>
   \<exists>m. create_alert rt send now location severity message source timestamp =
         ([], Inr (cross_mark @ ascii '' Error: '' @ m))"
  by (simp add: create_alert_def ascii_def)

lemma not_blank_examples:
  "\<not> blank (ascii ''lab'')" "\<not> blank (ascii ''fan'')" "\<not> blank (ascii ''probe'')"
  "\<not> blank (ascii ''urgent'')" "\<not> blank (ascii ''critical'')" "\<not> blank (ascii ''MAJOR'')"
  by (simp_all add: blank_def ascii_def isspace_def whitespace_def)

lemma invalid_examples:
  "\<not> validate_severity (ascii ''urgent'')" "\<not> validate_severity (ascii ''critical'')"
  by (simp_all add: validate_severity_def ascii_def)

text \<open>
  Claim C5. \<open>create_alert\<close> accepts a severity only when it is exactly one of
  \<open>CRITICAL\<close>, \<open>MAJOR\<close> and \<open>WARNING\<close>, in upper case. With any other severity it
  sends no request and returns a failure string; when the four required arguments are
  not blank, that string is the one that lists \<open>critical, major, warning\<close> in lower
  case. So it is for \<open>urgent\<close> and for \<open>critical\<close>.
\<close>

theorem severity_must_be_upper_case_member:
  "(validate_severity severity \<longleftrightarrow>
      severity = ascii ''CRITICAL'' \<or> severity = ascii ''MAJOR'' \<or>
      severity = ascii ''WARNING'') \<and>
   (\<not> validate_severity severity \<longrightarrow>
      (\<exists>m. create_alert rt send now location severity message source timestamp =
            ([], Inr (cross_mark @ ascii '' Error: '' @ m)))) \<and>
   (\<not> blank location \<and> \<not> blank severity \<and> \<not> blank message \<and> \<not> blank source \<and>
    \<not> validate_severity severity \<longrightarrow>
      create_alert rt send now location severity message source timestamp =
        ([], Inr (cross_mark @
                  ascii '' Error: Invalid severity. Must be one of: critical, major, warning''))) \<and>
   create_alert rt send now (ascii ''lab'') (ascii ''urgent'') (ascii ''fan'') (ascii ''probe'')
       timestamp =
     ([], Inr (cross_mark @
               ascii '' Error: Invalid severity. Must be one of: critical, major, warning'')) \<and>
   create_alert rt send now (ascii ''lab'') (ascii ''critical'') (ascii ''fan'') (ascii ''probe'')
       timestamp =
     ([], Inr (cross_mark @
               ascii '' Error: Invalid severity. Must be one of: critical, major, warning''))"
  apply (intro conjI impI)
  subgoal by (rule validate_severity_iff)
  subgoal by (rule create_alert_invalid_fails)
  subgoal by (simp add: create_alert_invalid_severity)
  subgoal by (simp add: create_alert_invalid_severity not_blank_examples invalid_examples)
  subgoal by (simp add: create_alert_invalid_severity not_blank_examples invalid_examples)
  done

theorem severity_must_be_upper_case_member_witness:
  "\<not> validate_severity (ascii ''Major'') \<and>
   create_alert example_rt (always (Response 200 body_success)) example_now
       (ascii ''lab'') (ascii ''Major'') (ascii ''fan'') (ascii ''probe'') [] =
     ([], Inr (cross_mark @
               ascii '' Error: Invalid severity. Must be one of: critical, major, warning''))"
proof -
  have v: "\<not> validate_severity (ascii ''Major'')"
    by (simp add: validate_severity_def ascii_def)
  have b: "\<not> blank (ascii ''Major'')"
    by (simp add: blank_def ascii_def isspace_def whitespace_def)
  show ?thesis
    using v b not_blank_examples
      severity_must_be_upper_case_member [where rt = example_rt
        and send = "always (Response 200 body_success)" and now = example_now
        and location = "ascii ''lab''" and severity = "ascii ''Major''"
        and message = "ascii ''fan''" and source = "ascii ''probe''" and timestamp = "[]"]
    by simp
qed

section \<open>A severity with white space around it\<close>

lemma valid_severity_ends:
  "validate_severity v \<Longrightarrow> v \<noteq> [] \<and> \<not> isspace (hd v) \<and> \<not> isspace (last v)"
  by (auto simp add: validate_severity_def ascii_def isspace_def whitespace_def)

lemma padded_not_blank: "\<not> blank tok \<Longrightarrow> \<not> blank (pre @ tok @ post)"
  by (simp add: blank_def)

lemma padded_not_valid:
  assumes "blank pre" and "blank post" and "pre \<noteq> [] \<or> post \<noteq> []"
  shows "\<not> validate_severity (pre @ tok @ post)"
proof
  assume "validate_severity (pre @ tok @ post)"
  then have e: "\<not> isspace (hd (pre @ tok @ post))" "\<not> isspace (last (pre @ tok @ post))"
    using valid_severity_ends by blast+
  from assms(3) show False
  proof
    assume "pre \<noteq> []"
    then have "hd (pre @ tok @ post) = hd pre" and "hd pre \<in> set pre" by simp_all
    with assms(1) e(1) show False by (simp add: blank_def list_all_iff)
  next
    assume "post \<noteq> []"
    then have "last (pre @ tok @ post) = last post" and "last post \<in> set post" by simp_all
    with assms(2) e(2) show False by (simp add: blank_def list_all_iff)
  qed
qed

lemma valid_not_blank: "validate_severity v \<Longrightarrow> \<not> blank v"
proof -
  assume "validate_severity v"
  then have "v \<noteq> []" and "\<not> isspace (hd v)" using valid_severity_ends by blast+
  then have "hd v \<in> set v" and "\<not> isspace (hd v)" by simp_all
  then show ?thesis by (auto simp add: blank_def list_all_iff)
qed

text \<open>
  Claim C10. A severity made of a valid token with white space before or after it,
  such as \<open>" CRITICAL "\<close>, is not blank, so it passes the check of the required
  arguments; but it is not one of the three valid strings, because the membership test
  reads the argument as it was given, and \<open>create_alert\<close> rejects it. A request is
  sent only when the severity is exactly \<open>CRITICAL\<close>, \<open>MAJOR\<close> or \<open>WARNING\<close>.
\<close>

theorem padded_severity_rejected:
  "(validate_severity tok \<and> blank pre \<and> blank post \<and> (pre \<noteq> [] \<or> post \<noteq> []) \<longrightarrow>
      strip (pre @ tok @ post) \<noteq> [] \<and> \<not> validate_severity (pre @ tok @ post)) \<and>
   (validate_severity tok \<and> blank pre \<and> blank post \<and> (pre \<noteq> [] \<or> post \<noteq> []) \<and>
    \<not> blank location \<and> \<not> blank message \<and> \<not> blank source \<longrightarrow>
      create_alert rt send now location (pre @ tok @ post) message source timestamp =
        ([], Inr (cross_mark @
                  ascii '' Error: Invalid severity. Must be one of: critical, major, warning''))) \<and>
   (fst (create_alert rt send now location severity message source timestamp) \<noteq> [] \<longrightarrow>
      severity = ascii ''CRITICAL'' \<or> severity = ascii ''MAJOR'' \<or>
      severity = ascii ''WARNING'')"
  apply (intro conjI impI)
  subgoal by (simp add: strip_Nil_iff padded_not_blank valid_not_blank)
  subgoal by (simp add: padded_not_valid)
  subgoal
    by (rule create_alert_invalid_severity)
       (simp_all add: padded_not_blank valid_not_blank padded_not_valid)
  subgoal using create_alert_sent_valid validate_severity_iff by blast
  done

theorem padded_severity_rejected_witness:
  "strip (ascii '' CRITICAL '') \<noteq> [] \<and> \<not> validate_severity (ascii '' CRITICAL '') \<and>
   create_alert example_rt (always (Response 200 body_success)) example_now
       (ascii ''lab'') (ascii '' CRITICAL '') (ascii ''fan'') (ascii ''probe'') [] =
     ([], Inr (cross_mark @
               ascii '' Error: Invalid severity. Must be one of: critical, major, warning'')) \<and>
   fst (create_alert example_rt (always (Response 200 body_success)) example_now
       (ascii ''lab'') (ascii ''CRITICAL'') (ascii ''fan'') (ascii ''probe'') []) \<noteq> []"
proof -
  have p: "ascii '' CRITICAL '' = ascii '' '' @ ascii ''CRITICAL'' @ ascii '' ''"
    by (simp add: ascii_def)
  have h: "validate_severity (ascii ''CRITICAL'')" "blank (ascii '' '')" "ascii '' '' \<noteq> []"
    by (simp_all add: validate_severity_def blank_def ascii_def isspace_def whitespace_def)
  have s: "fst (create_alert example_rt (always (Response 200 body_success)) example_now
       (ascii ''lab'') (ascii ''CRITICAL'') (ascii ''fan'') (ascii ''probe'') []) \<noteq> []"
    by (simp add: create_alert_def strip_Nil_iff not_blank_examples valid_not_blank h Let_def)
  show ?thesis
    using h s not_blank_examples
      padded_severity_rejected [where rt = example_rt
        and send = "always (Response 200 body_success)" and now = example_now
        and location = "ascii ''lab''" and severity = "ascii ''CRITICAL''"
        and message = "ascii ''fan''" and source = "ascii ''probe''" and timestamp = "[]"
        and tok = "ascii ''CRITICAL''" and pre = "ascii '' ''" and post = "ascii '' ''"]
    by (simp only: p) simp
qed

section \<open>What a new alert sends and what it echoes\<close>

lemma create_alert_request:
  "fst (create_alert rt send now location severity message source timestamp) \<noteq> [] \<Longrightarrow>
   fst (create_alert rt send now location severity message source timestamp) =
     [\<lparr>verb = POST, url = alertharvest_url rt @ ascii ''/api/create_alert/'',
       json = Some [(ascii ''location'', JString (strip location)),
                    (ascii ''severity'', JString (strip severity)),
                    (ascii ''message'', JString (strip message)),
                    (ascii ''source'', JString (strip source)),
                    (ascii ''timestamp'',
                     JString (if strip timestamp \<noteq> [] then strip timestamp
                              else format_timestamp now))],
       timeout = 10\<rparr>]"
  by (simp add: create_alert_def Let_def split: if_splits)

lemma answered_sent: "answered send run code b \<Longrightarrow> fst run \<noteq> []"
  by (auto simp add: answered_def)

lemma strip_fixed:
  assumes "strip s = s" and "s \<noteq> []"
  shows "\<not> isspace (hd s) \<and> \<not> isspace (last s)"
proof -
  let ?t = "dropWhile isspace s"
  have e: "rev (dropWhile isspace (rev ?t)) = s"
    using assms(1) by (simp add: strip_def lstrip_def rstrip_def)
  then have "length s = length (dropWhile isspace (rev ?t))"
    by (metis length_rev)
  also have "\<dots> \<le> length (rev ?t)"
    by (rule length_dropWhile_le)
  finally have "length s \<le> length ?t"
    by simp
  moreover have "length (takeWhile isspace s) + length ?t = length s"
    by (metis length_append takeWhile_dropWhile_id)
  ultimately have "length (takeWhile isspace s) = 0"
    by arith
  then have "takeWhile isspace s = []"
    by (simp only: length_0_conv)
  then have t: "?t = s"
    by (metis append_Nil takeWhile_dropWhile_id)
  then have h: "\<not> isspace (hd s)"
    using assms(2) by (simp add: dropWhile_eq_self_iff)
  from e t have "dropWhile isspace (rev s) = rev s"
    by (metis rev_rev_ident)
  then have "\<not> isspace (hd (rev s))"
    using assms(2) by (simp add: dropWhile_eq_self_iff)
  then have "\<not> isspace (last s)"
    using assms(2) by (simp add: hd_rev)
  with h show ?thesis by simp
qed

lemma strip_changes: "s \<noteq> [] \<Longrightarrow> isspace (hd s) \<or> isspace (last s) \<Longrightarrow> strip s \<noteq> s"
  using strip_fixed by blast

lemma strip_self:
  assumes "s \<noteq> []" and "\<not> isspace (hd s)" and "\<not> isspace (last s)"
  shows "strip s = s"
proof -
  have "dropWhile isspace s = s"
    using assms by (simp add: dropWhile_eq_self_iff)
  moreover have "dropWhile isspace (rev s) = rev s"
    using assms by (simp add: dropWhile_eq_self_iff hd_rev)
  ultimately show ?thesis
    by (simp add: strip_def lstrip_def rstrip_def)
qed

lemma strip_valid_severity: "validate_severity v \<Longrightarrow> strip v = v"
  using valid_severity_ends strip_self by blast

text \<open>
  Claim C9. When \<open>create_alert\<close> succeeds, the body of its request holds location,
  severity, message and source with the white space at both ends removed, and the
  success string shows the same four arguments as the caller gave them. An argument
  that begins or ends with white space is therefore not the value that was sent. (A
  severity never does when the call succeeds: it is one of the three valid strings.)
\<close>

theorem create_alert_sends_stripped_echoes_original:
  "(answered send (create_alert rt send now location severity message source timestamp)
      code (Dict d) \<and> is_success code \<and> status_is_success d \<longrightarrow>
      fst (create_alert rt send now location severity message source timestamp) =
        [\<lparr>verb = POST, url = alertharvest_url rt @ ascii ''/api/create_alert/'',
          json = Some [(ascii ''location'', JString (strip location)),
                       (ascii ''severity'', JString (strip severity)),
                       (ascii ''message'', JString (strip message)),
                       (ascii ''source'', JString (strip source)),
                       (ascii ''timestamp'',
                        JString (if strip timestamp \<noteq> [] then strip timestamp
                                 else format_timestamp now))],
          timeout = 10\<rparr>] \<and>
      snd (create_alert rt send now location severity message source timestamp) =
        Inr (check_mark @ ascii '' Alert Created Successfully'' @ [10] @
             [128205] @ ascii '' Location: '' @ location @ [10] @
             [9888, 65039] @ ascii '' Severity: '' @ severity @ [10] @
             [128172] @ ascii '' Message: '' @ message @ [10] @
             [128279] @ ascii '' Source: '' @ source @ [10] @
             [9201, 65039] @ ascii '' Timestamp: '' @
             (if strip timestamp \<noteq> [] then strip timestamp else format_timestamp now)) \<and>
      strip severity = severity) \<and>
   (x \<noteq> [] \<and> (isspace (hd x) \<or> isspace (last x)) \<longrightarrow> strip x \<noteq> x)"
  apply (intro conjI impI)
  subgoal by (rule create_alert_request) (auto dest: answered_sent)
  subgoal by (auto dest!: create_alert_answered)
  subgoal by (rule strip_valid_severity) (auto dest: answered_sent intro: create_alert_sent_valid)
  subgoal by (simp add: strip_changes)
  done
theorem create_alert_sends_stripped_echoes_original_witness:
  "fst (create_alert example_rt (always (Response 200 body_success)) example_now
          (ascii '' lab '') (ascii ''MAJOR'') (ascii ''fan '') (ascii ''probe'')
          (ascii ''2024-01-01T00:00:00+00:00'')) =
     [\<lparr>verb = POST, url = ascii ''http://127.0.0.1:8000/api/create_alert/'',
       json = Some [(ascii ''location'', JString (ascii ''lab'')),
                    (ascii ''severity'', JString (ascii ''MAJOR'')),
                    (ascii ''message'', JString (ascii ''fan'')),
                    (ascii ''source'', JString (ascii ''probe'')),
                    (ascii ''timestamp'', JString (ascii ''2024-01-01T00:00:00+00:00''))],
       timeout = 10\<rparr>] \<and>
   snd (create_alert example_rt (always (Response 200 body_success)) example_now
          (ascii '' lab '') (ascii ''MAJOR'') (ascii ''fan '') (ascii ''probe'')
          (ascii ''2024-01-01T00:00:00+00:00'')) =
     Inr (check_mark @ ascii '' Alert Created Successfully'' @ [10] @
          [128205] @ ascii '' Location:  lab '' @ [10] @
          [9888, 65039] @ ascii '' Severity: MAJOR'' @ [10] @
          [128172] @ ascii '' Message: fan '' @ [10] @
          [128279] @ ascii '' Source: probe'' @ [10] @
          [9201, 65039] @ ascii '' Timestamp: 2024-01-01T00:00:00+00:00'') \<and>
   strip (ascii '' lab '') \<noteq> ascii '' lab ''"
proof -
  have a: "answered (always (Response 200 body_success))
      (create_alert example_rt (always (Response 200 body_success)) example_now
          (ascii '' lab '') (ascii ''MAJOR'') (ascii ''fan '') (ascii ''probe'')
          (ascii ''2024-01-01T00:00:00+00:00'')) 200
      (Dict [ascii ''status'' \<mapsto> Str (ascii ''success'')])"
    by (simp add: answered_def create_alert_def validate_severity_def format_timestamp_def
        example_eval string_eval Let_def)
  have s: "is_success 200"
    "status_is_success [ascii ''status'' \<mapsto> Str (ascii ''success'')]"
    by (simp_all add: is_success_def status_is_success_def)
  show ?thesis
    using a s
      create_alert_sends_stripped_echoes_original [where rt = example_rt
        and send = "always (Response 200 body_success)" and now = example_now
        and location = "ascii '' lab ''" and severity = "ascii ''MAJOR''"
        and message = "ascii ''fan ''" and source = "ascii ''probe''"
        and timestamp = "ascii ''2024-01-01T00:00:00+00:00''" and code = 200
        and d = "[ascii ''status'' \<mapsto> Str (ascii ''success'')]" and x = "ascii '' lab ''"]
    by (simp add: string_eval example_rt_def)
qed

section \<open>The timestamp of a new alert\<close>

lemma str_nat_digits: "list_all (\<lambda>c. 48 \<le> c \<and> c \<le> 57) (str_nat n)"
proof (induction n rule: str_nat.induct)
  case (1 n)
  show ?case
  proof (cases "n < 10")
    case True
    then show ?thesis by (simp add: str_nat.simps [of n])
  next
    case False
    moreover have "n mod 10 \<le> 9" by arith
    ultimately show ?thesis using 1 by (simp add: str_nat.simps [of n])
  qed
qed

lemma str_nat_length: "n < 10 ^ k \<Longrightarrow> 0 < k \<Longrightarrow> length (str_nat n) \<le> k"
proof (induction n arbitrary: k rule: str_nat.induct)
  case (1 n)
  show ?case
  proof (cases "n < 10")
    case True
    then show ?thesis using "1.prems" by (simp add: str_nat.simps [of n])
  next
    case False
    obtain j where k: "k = Suc j"
      using "1.prems"(2) by (cases k) auto
    have j: "0 < j"
      using False "1.prems"(1) k by (cases j) auto
    have d: "n div 10 < 10 ^ j"
      using "1.prems"(1) k by (simp add: less_mult_imp_div_less mult.commute)
    have "length (str_nat (n div 10)) \<le> j"
      using "1.IH" [OF False d j] .
    then show ?thesis
      using False k by (simp add: str_nat.simps [of n])
  qed
qed

lemma zfill_digits: "n < 10 ^ w \<Longrightarrow> 0 < w \<Longrightarrow> digits w (zfill w (str_nat n))"
proof -
  assume "n < 10 ^ w" and "0 < w"
  then have "length (str_nat n) \<le> w" by (rule str_nat_length)
  then show ?thesis
    using str_nat_digits [of n] by (auto simp add: digits_def zfill_def list_all_iff)
qed

lemma isoformat_iso8601:
  assumes "clock_reading d"
  shows "iso8601_utc (isoformat d)"
proof -
  have Y: "digits 4 (zfill 4 (str_nat (year d)))"
    and M: "digits 2 (zfill 2 (str_nat (month d)))"
    and D: "digits 2 (zfill 2 (str_nat (day d)))"
    and h: "digits 2 (zfill 2 (str_nat (hour d)))"
    and m: "digits 2 (zfill 2 (str_nat (minute d)))"
    and s: "digits 2 (zfill 2 (str_nat (second d)))"
    and f: "digits 6 (zfill 6 (str_nat (microsecond d)))"
    using assms by (simp_all add: clock_reading_def zfill_digits)
  show ?thesis
    unfolding iso8601_utc_def isoformat_def
    apply (rule exI [of _ "zfill 4 (str_nat (year d))"])
    apply (rule exI [of _ "zfill 2 (str_nat (month d))"])
    apply (rule exI [of _ "zfill 2 (str_nat (day d))"])
    apply (rule exI [of _ "zfill 2 (str_nat (hour d))"])
    apply (rule exI [of _ "zfill 2 (str_nat (minute d))"])
    apply (rule exI [of _ "zfill 2 (str_nat (second d))"])
    apply (rule exI [of _ "if microsecond d \<noteq> 0
                           then ascii ''.'' @ zfill 6 (str_nat (microsecond d)) else []"])
    using Y M D h m s f by simp
qed

lemma replicate_numeral: "replicate (numeral k) x = x # replicate (pred_numeral k) x"
  by (simp add: numeral_eq_Suc)

lemma format_timestamp_example:
  "format_timestamp example_now = ascii ''2024-05-17T08:30:09.001250+00:00''"
  by (simp add: format_timestamp_def isoformat_def zfill_def str_nat.simps example_now_def
      ascii_def replicate_numeral)

text \<open>
  Claim C6, as the code has it. When the timestamp argument of \<open>create_alert\<close> is
  blank, the timestamp is the reading of the clock in ISO-8601 with the UTC offset, and
  this one value is both in the body of the request and at the end of the success
  string. When the argument is not blank, the value used in both places is the
  argument with the white space at its ends removed.
\<close>

theorem create_alert_timestamp:
  "(blank timestamp \<and>
    fst (create_alert rt send now location severity message source timestamp) \<noteq> [] \<longrightarrow>
      fst (create_alert rt send now location severity message source timestamp) =
        [\<lparr>verb = POST, url = alertharvest_url rt @ ascii ''/api/create_alert/'',
          json = Some [(ascii ''location'', JString (strip location)),
                       (ascii ''severity'', JString (strip severity)),
                       (ascii ''message'', JString (strip message)),
                       (ascii ''source'', JString (strip source)),
                       (ascii ''timestamp'', JString (format_timestamp now))],
          timeout = 10\<rparr>]) \<and>
   (blank timestamp \<and>
    answered send (create_alert rt send now location severity message source timestamp)
      code (Dict d) \<and> is_success code \<and> status_is_success d \<longrightarrow>
      snd (create_alert rt send now location severity message source timestamp) =
        Inr (check_mark @ ascii '' Alert Created Successfully'' @ [10] @
             [128205] @ ascii '' Location: '' @ location @ [10] @
             [9888, 65039] @ ascii '' Severity: '' @ severity @ [10] @
             [128172] @ ascii '' Message: '' @ message @ [10] @
             [128279] @ ascii '' Source: '' @ source @ [10] @
             [9201, 65039] @ ascii '' Timestamp: '' @ format_timestamp now)) \<and>
   (clock_reading now \<longrightarrow> iso8601_utc (format_timestamp now)) \<and>
   (\<not> blank timestamp \<and>
    fst (create_alert rt send now location severity message source timestamp) \<noteq> [] \<longrightarrow>
      fst (create_alert rt send now location severity message source timestamp) =
        [\<lparr>verb = POST, url = alertharvest_url rt @ ascii ''/api/create_alert/'',
          json = Some [(ascii ''location'', JString (strip location)),
                       (ascii ''severity'', JString (strip severity)),
                       (ascii ''message'', JString (strip message)),
                       (ascii ''source'', JString (strip source)),
                       (ascii ''timestamp'', JString (strip timestamp))],
          timeout = 10\<rparr>]) \<and>
   (\<not> blank timestamp \<and>
    answered send (create_alert rt send now location severity message source timestamp)
      code (Dict d) \<and> is_success code \<and> status_is_success d \<longrightarrow>
      snd (create_alert rt send now location severity message source timestamp) =
        Inr (check_mark @ ascii '' Alert Created Successfully'' @ [10] @
             [128205] @ ascii '' Location: '' @ location @ [10] @
             [9888, 65039] @ ascii '' Severity: '' @ severity @ [10] @
             [128172] @ ascii '' Message: '' @ message @ [10] @
             [128279] @ ascii '' Source: '' @ source @ [10] @
             [9201, 65039] @ ascii '' Timestamp: '' @ strip timestamp))"
  apply (intro conjI impI)
  subgoal using create_alert_request [of rt send now location severity message source timestamp]
    by (simp add: strip_Nil_iff)
  subgoal by (auto dest!: create_alert_answered simp add: strip_Nil_iff)
  subgoal by (simp add: format_timestamp_def isoformat_iso8601)
  subgoal using create_alert_request [of rt send now location severity message source timestamp]
    by (simp add: strip_Nil_iff)
  subgoal by (auto dest!: create_alert_answered simp add: strip_Nil_iff)
  done

theorem create_alert_timestamp_witness:
  "fst (create_alert example_rt (always (Response 200 body_success)) example_now
          (ascii ''lab'') (ascii ''MAJOR'') (ascii ''fan'') (ascii ''probe'') (ascii ''  '')) =
     [\<lparr>verb = POST, url = alertharvest_url example_rt @ ascii ''/api/create_alert/'',
       json = Some [(ascii ''location'', JString (ascii ''lab'')),
                    (ascii ''severity'', JString (ascii ''MAJOR'')),
                    (ascii ''message'', JString (ascii ''fan'')),
                    (ascii ''source'', JString (ascii ''probe'')),
                    (ascii ''timestamp'', JString (ascii ''2024-05-17T08:30:09.001250+00:00''))],
       timeout = 10\<rparr>] \<and>
   snd (create_alert example_rt (always (Response 200 body_success)) example_now
          (ascii ''lab'') (ascii ''MAJOR'') (ascii ''fan'') (ascii ''probe'') (ascii ''  '')) =
     Inr (check_mark @ ascii '' Alert Created Successfully'' @ [10] @
          [128205] @ ascii '' Location: lab'' @ [10] @
          [9888, 65039] @ ascii '' Severity: MAJOR'' @ [10] @
          [128172] @ ascii '' Message: fan'' @ [10] @
          [128279] @ ascii '' Source: probe'' @ [10] @
          [9201, 65039] @ ascii '' Timestamp: 2024-05-17T08:30:09.001250+00:00'') \<and>
   iso8601_utc (ascii ''2024-05-17T08:30:09.001250+00:00'') \<and>
   snd (create_alert example_rt (always (Response 200 body_success)) example_now
          (ascii ''lab'') (ascii ''MAJOR'') (ascii ''fan'') (ascii ''probe'') (ascii '' noon '')) =
     Inr (check_mark @ ascii '' Alert Created Successfully'' @ [10] @
          [128205] @ ascii '' Location: lab'' @ [10] @
          [9888, 65039] @ ascii '' Severity: MAJOR'' @ [10] @
          [128172] @ ascii '' Message: fan'' @ [10] @
          [128279] @ ascii '' Source: probe'' @ [10] @
          [9201, 65039] @ ascii '' Timestamp: noon'')"
proof -
  have a: "answered (always (Response 200 body_success))
      (create_alert example_rt (always (Response 200 body_success)) example_now
          (ascii ''lab'') (ascii ''MAJOR'') (ascii ''fan'') (ascii ''probe'') ts) 200
      (Dict [ascii ''status'' \<mapsto> Str (ascii ''success'')])" for ts
    by (simp add: answered_def create_alert_def validate_severity_def
        example_eval string_eval Let_def)
  have s: "is_success 200"
    "status_is_success [ascii ''status'' \<mapsto> Str (ascii ''success'')]"
    by (simp_all add: is_success_def status_is_success_def)
  have b: "blank (ascii ''  '')" "\<not> blank (ascii '' noon '')"
    by (simp_all add: blank_def ascii_def isspace_def whitespace_def)
  have c: "clock_reading example_now"
    by (simp add: clock_reading_def example_now_def)
  have t: "strip (ascii '' noon '') = ascii ''noon''" "strip (ascii ''lab'') = ascii ''lab''"
    "strip (ascii ''MAJOR'') = ascii ''MAJOR''" "strip (ascii ''fan'') = ascii ''fan''"
    "strip (ascii ''probe'') = ascii ''probe''"
    by (simp_all add: string_eval)
  have n: "fst (create_alert example_rt (always (Response 200 body_success)) example_now
          (ascii ''lab'') (ascii ''MAJOR'') (ascii ''fan'') (ascii ''probe'') ts) \<noteq> []" for ts
    using a answered_sent by blast
  show ?thesis
    using a s b c n
      create_alert_timestamp [where rt = example_rt
        and send = "always (Response 200 body_success)" and now = example_now
        and location = "ascii ''lab''" and severity = "ascii ''MAJOR''"
        and message = "ascii ''fan''" and source = "ascii ''probe''"
        and timestamp = "ascii ''  ''" and code = 200
        and d = "[ascii ''status'' \<mapsto> Str (ascii ''success'')]"]
      create_alert_timestamp [where rt = example_rt
        and send = "always (Response 200 body_success)" and now = example_now
        and location = "ascii ''lab''" and severity = "ascii ''MAJOR''"
        and message = "ascii ''fan''" and source = "ascii ''probe''"
        and timestamp = "ascii '' noon ''" and code = 200
        and d = "[ascii ''status'' \<mapsto> Str (ascii ''success'')]"]
    by (simp add: t format_timestamp_example) (simp add: ascii_def)
qed

text \<open>
  The claim as the specification words it says that a supplied timestamp is used as it
  is. It is not: with white space around it, the value sent is another string.
\<close>

theorem supplied_timestamp_is_stripped:
  "\<not> blank (ascii '' 2024-01-01T00:00:00+00:00 '') \<and>
   fst (create_alert example_rt (always (Response 200 body_success)) example_now
          (ascii ''lab'') (ascii ''MAJOR'') (ascii ''fan'') (ascii ''probe'')
          (ascii '' 2024-01-01T00:00:00+00:00 '')) =
     [\<lparr>verb = POST, url = ascii ''http://127.0.0.1:8000/api/create_alert/'',
       json = Some [(ascii ''location'', JString (ascii ''lab'')),
                    (ascii ''severity'', JString (ascii ''MAJOR'')),
                    (ascii ''message'', JString (ascii ''fan'')),
                    (ascii ''source'', JString (ascii ''probe'')),
                    (ascii ''timestamp'', JString (ascii ''2024-01-01T00:00:00+00:00''))],
       timeout = 10\<rparr>] \<and>
   ascii ''2024-01-01T00:00:00+00:00'' \<noteq> ascii '' 2024-01-01T00:00:00+00:00 ''"
  by (simp add: create_alert_def validate_severity_def blank_def example_eval string_eval
      Let_def)

section \<open>Repeated identifiers\<close>

lemma parse_id_list_Some:
  "\<forall>t\<in>set (tokens alert_ids). py_int lim t \<noteq> None \<Longrightarrow>
   parse_id_list lim alert_ids = Some (map (the \<circ> py_int lim) (tokens alert_ids))"
  by (simp only: parse_id_list_tokens those_map_Some)

lemma acknowledge_alerts_bulk_success:
  assumes "\<forall>t\<in>set (tokens alert_ids). py_int (int_max_str_digits rt) t \<noteq> None"
    and "answered send (acknowledge_alerts_bulk rt send alert_ids) code (Dict d)"
    and "is_success code" and "status_is_success d"
  shows "snd (acknowledge_alerts_bulk rt send alert_ids) =
     Inr (check_mark @ ascii '' '' @ str_nat (length (tokens alert_ids)) @
          ascii '' alerts acknowledged successfully: '' @
          str_int_list (map (the \<circ> py_int (int_max_str_digits rt)) (tokens alert_ids)))"
  using acknowledge_alerts_bulk_answered [OF assms(2)] assms(3,4)
  by (simp add: parse_id_list_Some [OF assms(1)])

lemma close_alerts_bulk_success:
  assumes "\<forall>t\<in>set (tokens alert_ids). py_int (int_max_str_digits rt) t \<noteq> None"
    and "answered send (close_alerts_bulk rt send alert_ids) code (Dict d)"
    and "is_success code" and "status_is_success d"
  shows "snd (close_alerts_bulk rt send alert_ids) =
     Inr (check_mark @ ascii '' '' @ str_nat (length (tokens alert_ids)) @
          ascii '' alerts closed successfully: '' @
          str_int_list (map (the \<circ> py_int (int_max_str_digits rt)) (tokens alert_ids)))"
  using close_alerts_bulk_answered [OF assms(2)] assms(3,4)
  by (simp add: parse_id_list_Some [OF assms(1)])

text \<open>
  Claim C8, as the code has it. The bulk tools keep the identifiers in a list, in the
  order of the tokens and with every repetition: the body of the request holds one
  integer for each token, and the number in the success string is the number of
  tokens.
\<close>

theorem bulk_ids_kept_as_list:
  "(tokens alert_ids \<noteq> [] \<and>
    (\<forall>t\<in>set (tokens alert_ids). py_int (int_max_str_digits rt) t \<noteq> None) \<longrightarrow>
      fst (acknowledge_alerts_bulk rt send alert_ids) =
        [\<lparr>verb = PUT, url = alertharvest_url rt @ ascii ''/api/acknowledge_alerts_bulk/'',
          json = Some [(ascii ''alert_ids'',
                        JIntList (map (the \<circ> py_int (int_max_str_digits rt))
                                      (tokens alert_ids)))],
          timeout = 10\<rparr>] \<and>
      fst (close_alerts_bulk rt send alert_ids) =
        [\<lparr>verb = PUT, url = alertharvest_url rt @ ascii ''/api/close_alerts_bulk/'',
          json = Some [(ascii ''alert_ids'',
                        JIntList (map (the \<circ> py_int (int_max_str_digits rt))
                                      (tokens alert_ids)))],
          timeout = 10\<rparr>]) \<and>
   ((\<forall>t\<in>set (tokens alert_ids). py_int (int_max_str_digits rt) t \<noteq> None) \<and>
    answered send (acknowledge_alerts_bulk rt send alert_ids) code (Dict d) \<and>
    is_success code \<and> status_is_success d \<longrightarrow>
      snd (acknowledge_alerts_bulk rt send alert_ids) =
        Inr (check_mark @ ascii '' '' @ str_nat (length (tokens alert_ids)) @
             ascii '' alerts acknowledged successfully: '' @
             str_int_list (map (the \<circ> py_int (int_max_str_digits rt)) (tokens alert_ids)))) \<and>
   ((\<forall>t\<in>set (tokens alert_ids). py_int (int_max_str_digits rt) t \<noteq> None) \<and>
    answered send (close_alerts_bulk rt send alert_ids) code (Dict d) \<and>
    is_success code \<and> status_is_success d \<longrightarrow>
      snd (close_alerts_bulk rt send alert_ids) =
        Inr (check_mark @ ascii '' '' @ str_nat (length (tokens alert_ids)) @
             ascii '' alerts closed successfully: '' @
             str_int_list (map (the \<circ> py_int (int_max_str_digits rt)) (tokens alert_ids))))"
  apply (intro conjI impI)
  subgoal by (simp add: acknowledge_alerts_bulk_request)
  subgoal by (simp add: close_alerts_bulk_request)
  subgoal by (rule acknowledge_alerts_bulk_success [of alert_ids rt send code d]) simp_all
  subgoal by (rule close_alerts_bulk_success [of alert_ids rt send code d]) simp_all
  done

lemma tokens_repeated: "tokens (ascii ''2,1,2'') = [ascii ''2'', ascii ''1'', ascii ''2'']"
  by (simp add: tokens_def string_eval)

theorem bulk_ids_kept_as_list_witness:
  "fst (acknowledge_alerts_bulk example_rt (always (Response 200 body_success))
          (ascii ''2,1,2'')) =
     [\<lparr>verb = PUT, url = alertharvest_url example_rt @ ascii ''/api/acknowledge_alerts_bulk/'',
       json = Some [(ascii ''alert_ids'', JIntList [2, 1, 2])], timeout = 10\<rparr>] \<and>
   snd (close_alerts_bulk example_rt (always (Response 200 body_success)) (ascii ''2,1,2'')) =
     Inr (check_mark @ ascii '' 3 alerts closed successfully: [2, 1, 2]'')"
proof -
  have i: "py_int lim (ascii ''1'') = Some 1" "py_int lim (ascii ''2'') = Some 2" for lim
    by (rule py_int_examples)+
  have a: "answered (always (Response 200 body_success))
      (close_alerts_bulk example_rt (always (Response 200 body_success)) (ascii ''2,1,2''))
      200 (Dict [ascii ''status'' \<mapsto> Str (ascii ''success'')])"
    by (simp add: answered_def close_alerts_bulk_def parse_id_list_def example_eval
        string_eval int_eval Let_def)
  have a': "answered (always (Response 200 body_success))
      (acknowledge_alerts_bulk example_rt (always (Response 200 body_success)) (ascii ''2,1,2''))
      200 (Dict [ascii ''status'' \<mapsto> Str (ascii ''success'')])"
    by (simp add: answered_def acknowledge_alerts_bulk_def parse_id_list_def example_eval
        string_eval int_eval Let_def)
  have s: "is_success 200"
    "status_is_success [ascii ''status'' \<mapsto> Str (ascii ''success'')]"
    by (simp_all add: is_success_def status_is_success_def)
  show ?thesis
    using a a' s
      bulk_ids_kept_as_list [where rt = example_rt
        and send = "always (Response 200 body_success)" and alert_ids = "ascii ''2,1,2''"
        and code = 200 and d = "[ascii ''status'' \<mapsto> Str (ascii ''success'')]"]
    by (simp add: tokens_repeated i str_int_list_def str_int_def str_nat.simps)
       (simp add: ascii_def)
qed

text \<open>
  The claim as the specification words it says that the identifiers are made a set,
  so that a repeated one is sent once and counted once. It is sent and counted as
  often as it is given.
\<close>

theorem repeated_id_sent_twice:
  "acknowledge_alerts_bulk example_rt (always (Response 200 body_success)) (ascii ''2,1,2'') =
     ([\<lparr>verb = PUT, url = ascii ''http://127.0.0.1:8000/api/acknowledge_alerts_bulk/'',
        json = Some [(ascii ''alert_ids'', JIntList [2, 1, 2])], timeout = 10\<rparr>],
      Inr (check_mark @ ascii '' 3 alerts acknowledged successfully: [2, 1, 2]''))"
  by (simp add: acknowledge_alerts_bulk_def parse_id_list_def str_int_list_def example_eval
      string_eval int_eval Let_def)

end
